theory Spec2Isabelle
  imports Main "HOL-Library.Word" "HOL-Library.AList"
begin

section \<open>Python values used by the server\<close>

text \<open>
  Header values reach the handlers as Python \<open>str\<close> objects decoded from Latin-1, so
  one \<^typ>\<open>char\<close> is one code point below 256. Request bodies and file contents are
  byte strings. \<open>datetime\<close> values are modelled as integer timestamps (seconds).
\<close>

type_synonym bytes = "8 word list"
type_synonym timestamp = int

definition is_space :: "char \<Rightarrow> bool" where
  \<comment> \<open>\<open>str.isspace\<close> on the code points below 256\<close>
  "is_space c = (of_char c \<in> {9, 10, 11, 12, 13, 28, 29, 30, 31, 32, 133, 160 :: nat})"

definition strip :: "string \<Rightarrow> string" where
  \<comment> \<open>\<open>str.strip()\<close>\<close>
  "strip s = rev (dropWhile is_space (rev (dropWhile is_space s)))"

definition rstrip_char :: "char \<Rightarrow> string \<Rightarrow> string" where
  \<comment> \<open>\<open>str.rstrip(c)\<close> for a one-character argument\<close>
  "rstrip_char c s = rev (dropWhile (\<lambda>x. x = c) (rev s))"

fun split_on :: "char \<Rightarrow> string \<Rightarrow> string list" where
  \<comment> \<open>\<open>str.split(sep)\<close> for a one-character separator: never the empty list\<close>
  "split_on c [] = [[]]"
| "split_on c (x # xs) =
     (if x = c then [] # split_on c xs
      else (case split_on c xs of
              [] \<Rightarrow> [[x]]
            | w # ws \<Rightarrow> (x # w) # ws))"

definition split_once :: "char \<Rightarrow> string \<Rightarrow> string list" where
  \<comment> \<open>\<open>str.split(sep, 1)\<close>: one or two parts\<close>
  "split_once c s =
     (if c \<in> set s
      then [takeWhile (\<lambda>x. x \<noteq> c) s, tl (dropWhile (\<lambda>x. x \<noteq> c) s)]
      else [s])"

fun remove_all :: "string \<Rightarrow> string \<Rightarrow> string" where
  \<comment> \<open>\<open>s.replace(pat, "")\<close> for a non-empty \<open>pat\<close>: leftmost occurrences, not overlapping\<close>
  "remove_all pat [] = []"
| "remove_all pat (x # xs) =
     (if pat \<noteq> [] \<and> take (length pat) (x # xs) = pat
      then remove_all pat (drop (length pat - 1) xs)
      else x # remove_all pat xs)"

definition lower_char :: "char \<Rightarrow> char" where
  \<comment> \<open>\<open>str.lower()\<close> on one code point below 256\<close>
  "lower_char c =
     (let n = (of_char c :: nat)
      in if (65 \<le> n \<and> n \<le> 90) \<or> (192 \<le> n \<and> n \<le> 222 \<and> n \<noteq> 215)
         then char_of (n + 32) else c)"

definition lower :: "string \<Rightarrow> string" where
  "lower s = map lower_char s"

definition is_digit :: "char \<Rightarrow> bool" where
  "is_digit c = (48 \<le> (of_char c :: nat) \<and> (of_char c :: nat) \<le> 57)"

definition digit_val :: "char \<Rightarrow> int" where
  "digit_val c = int (of_char c) - 48"

fun valid_digits :: "string \<Rightarrow> bool" where
  \<comment> \<open>decimal digits, single underscores allowed between two digits\<close>
  "valid_digits [] = False"
| "valid_digits [c] = is_digit c"
| "valid_digits (c # d # r) =
     (is_digit c \<and> (if d = CHR ''_'' then valid_digits r else valid_digits (d # r)))"

definition digits_value :: "string \<Rightarrow> int" where
  "digits_value s = foldl (\<lambda>a c. 10 * a + digit_val c) 0 (filter is_digit s)"

definition parse_digits :: "string \<Rightarrow> int option" where
  "parse_digits s = (if valid_digits s then Some (digits_value s) else None)"

definition is_int_space :: "char \<Rightarrow> bool" where
  \<comment> \<open>the white space \<open>int()\<close> skips around a number: the C white space, and the
     white space above 127, which it turns into a blank first\<close>
  "is_int_space c = (of_char c \<in> {9, 10, 11, 12, 13, 32, 133, 160 :: nat})"

definition int_strip :: "string \<Rightarrow> string" where
  "int_strip s = rev (dropWhile is_int_space (rev (dropWhile is_int_space s)))"

definition py_int :: "string \<Rightarrow> int option" where
  \<comment> \<open>\<open>int(s)\<close> in base ten; \<open>None\<close> stands for \<open>ValueError\<close>. The limit on the
     number of digits is a setting of the interpreter (4300 digits unless it is changed
     or switched off), not of these sources: the model is the interpreter without it.\<close>
  "py_int s =
     (case int_strip s of
        [] \<Rightarrow> None
      | c # r \<Rightarrow>
          if c = CHR ''-'' then map_option uminus (parse_digits r)
          else if c = CHR ''+'' then parse_digits r
          else parse_digits (c # r))"

fun nat_digits :: "nat \<Rightarrow> string" where
  "nat_digits n =
     (if n < 10 then [char_of (48 + n)]
      else nat_digits (n div 10) @ [char_of (48 + n mod 10)])"

definition str_int :: "int \<Rightarrow> string" where
  \<comment> \<open>\<open>str(n)\<close> for an integer\<close>
  "str_int n = (if n < 0 then CHR ''-'' # nat_digits (nat (- n)) else nat_digits (nat n))"

section \<open>Exceptions and library functions\<close>

datatype exn =
    HTTPException int string
  | TusError int string
  | ValueError string
  | RuntimeError string
  | FileNotFoundError
  | OSError
  | AttributeError string

text \<open>
  The standard-library functions the server calls are parameters of the model:
  \<open>b64decode_utf8 s\<close> is \<open>base64.b64decode(s).decode("utf-8")\<close>, with \<open>None\<close> for any
  exception it raises; the three digests are \<open>hashlib.<algo>(data).hexdigest()\<close>.
  The decoder is also written out below, as \<open>py_b64decode_utf8\<close>, for the examples.
\<close>

record codecs =
  b64decode_utf8 :: "string \<Rightarrow> string option"
  sha256_hex :: "bytes \<Rightarrow> string"
  sha1_hex :: "bytes \<Rightarrow> string"
  md5_hex :: "bytes \<Rightarrow> string"

subsection \<open>The decoder of the standard library\<close>

text \<open>
  \<open>base64.b64decode\<close> with its default arguments does not validate: it refuses a text
  with a character above 127, and otherwise runs \<open>binascii.a2b_base64\<close>, which skips
  every character outside the alphabet, stops at a complete padding, and raises only when
  the characters it kept do not end on a group of four. The arguments of \<open>a2b_base64\<close>
  after the text are the variables of that loop: the position in the group, the bits left
  over, the padding characters seen, the bytes written.
\<close>

definition b64_value :: "char \<Rightarrow> nat option" where
  "b64_value c =
     (let n = (of_char c :: nat)
      in if 65 \<le> n \<and> n \<le> 90 then Some (n - 65)
         else if 97 \<le> n \<and> n \<le> 122 then Some (n - 71)
         else if 48 \<le> n \<and> n \<le> 57 then Some (n + 4)
         else if n = 43 then Some 62
         else if n = 47 then Some 63
         else None)"

fun a2b_base64 :: "string \<Rightarrow> nat \<Rightarrow> nat \<Rightarrow> nat \<Rightarrow> nat list \<Rightarrow> nat list option" where
  "a2b_base64 [] quad_pos leftchar pads out = (if quad_pos = 0 then Some out else None)"
| "a2b_base64 (c # cs) quad_pos leftchar pads out =
     (if c = CHR ''=''
      then (if 2 \<le> quad_pos \<and> 4 \<le> quad_pos + (pads + 1) then Some out
            else a2b_base64 cs quad_pos leftchar (if 2 \<le> quad_pos then pads + 1 else pads) out)
      else (case b64_value c of
              None \<Rightarrow> a2b_base64 cs quad_pos leftchar pads out
            | Some v \<Rightarrow>
                if quad_pos = 0 then a2b_base64 cs 1 v 0 out
                else if quad_pos = 1
                then a2b_base64 cs 2 (v mod 16) 0 (out @ [leftchar * 4 + v div 16])
                else if quad_pos = 2
                then a2b_base64 cs 3 (v mod 4) 0 (out @ [leftchar * 16 + v div 4])
                else a2b_base64 cs 0 0 0 (out @ [leftchar * 64 + v])))"

text \<open>
  \<open>bytes.decode("utf-8")\<close>: the code points of a byte string, or \<open>None\<close> for
  \<open>UnicodeDecodeError\<close> (a stray or missing continuation byte, an overlong form, a
  surrogate, a code point above 0x10FFFF).
\<close>

definition is_cont :: "nat \<Rightarrow> bool" where
  "is_cont b = (128 \<le> b \<and> b \<le> 191)"

fun utf8_decode :: "nat list \<Rightarrow> nat list option" where
  "utf8_decode [] = Some []"
| "utf8_decode (b # bs) =
     (if b < 128 then map_option ((#) b) (utf8_decode bs)
      else if 194 \<le> b \<and> b \<le> 223
      then (case bs of
              c1 # r \<Rightarrow>
                if is_cont c1
                then map_option ((#) ((b - 192) * 64 + (c1 - 128))) (utf8_decode r)
                else None
            | _ \<Rightarrow> None)
      else if 224 \<le> b \<and> b \<le> 239
      then (case bs of
              c1 # c2 # r \<Rightarrow>
                if is_cont c1 \<and> is_cont c2
                   \<and> (if b = 224 then 160 \<le> c1 else if b = 237 then c1 \<le> 159 else True)
                then map_option ((#) ((b - 224) * 4096 + (c1 - 128) * 64 + (c2 - 128)))
                       (utf8_decode r)
                else None
            | _ \<Rightarrow> None)
      else if 240 \<le> b \<and> b \<le> 244
      then (case bs of
              c1 # c2 # c3 # r \<Rightarrow>
                if is_cont c1 \<and> is_cont c2 \<and> is_cont c3
                   \<and> (if b = 240 then 144 \<le> c1 else if b = 244 then c1 \<le> 143 else True)
                then map_option
                       ((#) ((b - 240) * 262144 + (c1 - 128) * 4096 + (c2 - 128) * 64 + (c3 - 128)))
                       (utf8_decode r)
                else None
            | _ \<Rightarrow> None)
      else None)"

text \<open>
  The two together. A \<^typ>\<open>char\<close> holds a code point below 256: a decoded text with a
  higher code point has no counterpart among the model's strings (\<open>char_of\<close> wraps it),
  and no statement below rests on such a text.
\<close>

definition py_b64decode_utf8 :: "string \<Rightarrow> string option" where
  "py_b64decode_utf8 s =
     (if list_ex (\<lambda>c. 128 \<le> (of_char c :: nat)) s then None
      else (case a2b_base64 s 0 0 0 [] of
              None \<Rightarrow> None
            | Some bs \<Rightarrow> map_option (map char_of) (utf8_decode bs)))"

section \<open>models.py\<close>

record TusMetadata =
  md_filename :: string
  md_filetype :: "string option"
  md_checksum :: "string option"
  md_retention :: "string option"
  md_retention_ttl :: "int option"

definition parse_item :: "(string \<Rightarrow> string option) \<Rightarrow> string \<Rightarrow> string \<times> string" where
  \<comment> \<open>one non-empty, stripped item of the header: its key and its value\<close>
  "parse_item dec item =
     (case split_once CHR '' '' item of
        [k, v] \<Rightarrow> (strip k, (case dec (strip v) of Some d \<Rightarrow> d | None \<Rightarrow> strip v))
      | k # _ \<Rightarrow> (strip k, [])
      | [] \<Rightarrow> ([], []))"

fun parse_items ::
  "(string \<Rightarrow> string option) \<Rightarrow> string list \<Rightarrow> (string \<rightharpoonup> string) \<Rightarrow> (string \<rightharpoonup> string)" where
  \<comment> \<open>the loop of \<open>from_header\<close> over \<open>header_value.split(",")\<close>\<close>
  "parse_items dec [] metadata = metadata"
| "parse_items dec (raw # rest) metadata =
     (let item = strip raw
      in if item = [] then parse_items dec rest metadata
         else (case parse_item dec item of
                 (key, val) \<Rightarrow> parse_items dec rest (metadata(key \<mapsto> val))))"

definition truthy :: "string option \<Rightarrow> bool" where
  \<comment> \<open>Python truth of an optional string: neither \<open>None\<close> nor empty\<close>
  "truthy v = (case v of None \<Rightarrow> False | Some s \<Rightarrow> s \<noteq> [])"

definition from_header :: "(string \<Rightarrow> string option) \<Rightarrow> string \<Rightarrow> exn + TusMetadata" where
  "from_header dec header_value =
     (if header_value = [] then Inl (ValueError ''Empty metadata header'')
      else
        let metadata = parse_items dec (split_on CHR '','' header_value) Map.empty
        in if metadata ''filename'' = None
           then Inl (ValueError ''filename is required in metadata'')
           else if truthy (metadata ''retention_ttl'')
           then (case py_int (the (metadata ''retention_ttl'')) of
                   None \<Rightarrow> Inl (ValueError ''invalid literal for int()'')
                 | Some ttl \<Rightarrow>
                     Inr \<lparr> md_filename = the (metadata ''filename''),
                           md_filetype = metadata ''filetype'',
                           md_checksum = metadata ''checksum'',
                           md_retention = metadata ''retention'',
                           md_retention_ttl = Some ttl \<rparr>)
           else Inr \<lparr> md_filename = the (metadata ''filename''),
                      md_filetype = metadata ''filetype'',
                      md_checksum = metadata ''checksum'',
                      md_retention = metadata ''retention'',
                      md_retention_ttl = None \<rparr>)"

text \<open>
  \<open>TusUpload\<close>. The Python field \<open>size\<close> is \<open>upload_size\<close> here. The \<open>metadata\<close>
  dictionary of the record repeats \<open>filetype\<close>, \<open>checksum\<close>, \<open>retention\<close> and
  \<open>retention_ttl\<close> and is never read by the server; it is left out.

  The class declares no field \<open>owner_id\<close>, and a model class of the validation library
  raises \<open>AttributeError\<close> when an attribute it does not declare is read: that is what
  \<open>upload.owner_id\<close> does in storage.py.
\<close>

record TusUpload =
  file_id :: string
  filename :: string
  upload_size :: int
  offset :: int
  created_at :: timestamp
  updated_at :: timestamp
  expires_at :: "timestamp option"
  is_final :: bool
  storage_path :: string
  checksum :: "string option"
  mime_type :: "string option"
  retention :: string
  retention_ttl :: "int option"
  retention_expires_at :: "timestamp option"
  download_count :: int

definition is_complete :: "TusUpload \<Rightarrow> bool" where
  "is_complete u = (upload_size u \<le> offset u)"

definition remaining :: "TusUpload \<Rightarrow> int" where
  "remaining u = max 0 (upload_size u - offset u)"

definition no_owner_id :: exn where
  \<comment> \<open>what reading \<open>upload.owner_id\<close> raises\<close>
  "no_owner_id = AttributeError ''TusUpload object has no attribute owner_id''"

definition invalid_version :: exn where
  "invalid_version = TusError 412 ''Precondition Failed: Invalid Tus-Resumable header''"

section \<open>The state backend and the server state\<close>

text \<open>
  The dictionary kept under \<open>file:<file_id>\<close>, by key, as \<open>finalize_upload\<close> is written
  to build it.
\<close>

record file_info =
  fi_file_id :: string
  fi_filename :: string
  fi_size :: int
  fi_available_size :: int
  fi_mime_type :: "string option"
  fi_checksum :: "string option"
  fi_is_complete :: bool
  fi_created_at :: timestamp
  fi_completed_at :: "timestamp option"
  fi_storage_path :: "string option"
  fi_retention :: string
  fi_retention_ttl :: "int option"
  fi_retention_expires_at :: "timestamp option"
  fi_download_count :: int
  fi_owner_id :: "string option"

text \<open>
  A value of the state backend: the JSON text of an upload record, the JSON text of a
  completed-file dictionary, or the marker \<open>"1"\<close> of a lock.
\<close>

datatype stored = VUpload TusUpload | VFile file_info | VLock

text \<open>
  What the storage object works on: the key-value state behind \<open>self.state\<close>, and the two
  directories \<open>uploads/\<close> and \<open>files/\<close> under the storage path, each a list of
  (file name, content).
\<close>

record server =
  kv :: "string \<rightharpoonup> stored"
  uploads_dir :: "(string \<times> bytes) list"
  files_dir :: "(string \<times> bytes) list"

text \<open>
  Modelled from the spec: the state backend (\<open>etransfer.server.services.state\<close> is not
  among the sources). The spec gives \<open>get(key)\<close>, \<open>set(key, value, ex, nx)\<close> returning whether
  the value was applied, with \<open>nx\<close> meaning only if absent, and \<open>delete(key)\<close>. The
  expiration hint \<open>ex\<close> is not modelled: a key expires through the environment.
\<close>

definition state_get :: "server \<Rightarrow> string \<Rightarrow> stored option" where
  "state_get s key = kv s key"

definition state_set :: "server \<Rightarrow> string \<Rightarrow> stored \<Rightarrow> bool \<Rightarrow> bool \<times> server" where
  "state_set s key v nx =
     (if nx \<and> kv s key \<noteq> None then (False, s)
      else (True, s\<lparr>kv := (kv s)(key \<mapsto> v)\<rparr>))"

definition state_delete :: "server \<Rightarrow> string \<Rightarrow> server" where
  "state_delete s key = s\<lparr>kv := (kv s)(key := None)\<rparr>"

text \<open>
  The environment of one call: the clock, what the other workers do to the shared state
  while \<open>write_chunk\<close> sleeps before its second try for the lock, whether the file
  operation of \<open>write_chunk\<close> fails, and the two identifiers \<open>uuid4\<close> returns to
  \<open>tus_create\<close>. A handler reads the clock several times; the model gives it one
  reading per call. \<open>WriteFault k\<close> is a write that fails after \<open>k\<close> bytes. The rename
  of \<open>finalize_upload\<close> is taken to succeed: file names hold no path separator.
\<close>

datatype io_fault = NoFault | OpenFault | WriteFault nat

record env =
  now :: timestamp
  sleep :: "server \<Rightarrow> server"
  io :: io_fault
  fresh_id :: string
  fresh_name :: string

text \<open>
  The configuration. Modelled from the spec: the constants of
  \<open>etransfer.common.constants\<close>, which is not among the sources (the version string
  \<open>1.0.0\<close>, the content type of a PATCH body, the key prefixes); the number of seconds
  after which an upload expires is the field \<open>upload_expiration_seconds\<close>.
\<close>

record token_policy =
  tp_default_retention :: "string option"
  tp_default_ttl :: "int option"

record config =
  max_size :: "int option"
  max_storage_size :: "int option"
  chunk_size :: int
  upload_expiration_seconds :: int
  default_retention :: string
  default_retention_ttl :: "int option"
  token_retention_policies :: "string \<rightharpoonup> token_policy"
  codec :: codecs

definition TUS_VERSION :: string where
  "TUS_VERSION = ''1.0.0''"

definition CONTENT_TYPE_OFFSET :: string where
  "CONTENT_TYPE_OFFSET = ''application/offset+octet-stream''"

section \<open>storage.py\<close>

definition get_file_path :: "string \<Rightarrow> string" where
  \<comment> \<open>the name of the upload's file in \<open>uploads/\<close>\<close>
  "get_file_path fid = fid"

definition get_final_path :: "string \<Rightarrow> string \<Rightarrow> string" where
  \<comment> \<open>the name of the completed file in \<open>files/\<close>\<close>
  "get_final_path fid fname = fid @ ''_'' @ fname"

definition upload_key :: "string \<Rightarrow> string" where
  "upload_key fid = ''upload:'' @ fid"

definition lock_key :: "string \<Rightarrow> string" where
  "lock_key fid = ''lock:'' @ fid"

definition file_key :: "string \<Rightarrow> string" where
  "file_key fid = ''file:'' @ fid"

definition acquire_lock :: "server \<Rightarrow> string \<Rightarrow> bool \<times> server" where
  "acquire_lock s fid = state_set s (lock_key fid) VLock True"

definition release_lock :: "server \<Rightarrow> string \<Rightarrow> server" where
  "release_lock s fid = state_delete s (lock_key fid)"

definition create_upload :: "server \<Rightarrow> TusUpload \<Rightarrow> server" where
  "create_upload s upload =
     (let s1 = snd (state_set s (upload_key (file_id upload)) (VUpload upload) False)
      in s1\<lparr>uploads_dir := AList.update (get_file_path (file_id upload)) [] (uploads_dir s1)\<rparr>)"

definition get_upload :: "server \<Rightarrow> string \<Rightarrow> TusUpload option" where
  "get_upload s fid =
     (case state_get s (upload_key fid) of
        Some (VUpload u) \<Rightarrow> Some u
      | _ \<Rightarrow> None)"

definition update_upload :: "env \<Rightarrow> server \<Rightarrow> TusUpload \<Rightarrow> server" where
  "update_upload e s upload =
     snd (state_set s (upload_key (file_id upload)) (VUpload (upload\<lparr>updated_at := now e\<rparr>)) False)"

definition starts_with :: "string \<Rightarrow> string \<Rightarrow> bool" where
  \<comment> \<open>\<open>name.startswith(p)\<close>\<close>
  "starts_with name p = (take (length p) name = p)"

definition delete_upload :: "server \<Rightarrow> string \<Rightarrow> server" where
  "delete_upload s fid =
     (let upload = get_upload s fid;
          s1 = state_delete (state_delete s (upload_key fid)) (file_key fid);
          s2 = s1\<lparr>uploads_dir := AList.delete (get_file_path fid) (uploads_dir s1)\<rparr>;
          s3 = (case upload of
                  None \<Rightarrow> s2
                | Some u \<Rightarrow>
                    if filename u \<noteq> []
                    then s2\<lparr>files_dir := AList.delete (get_final_path fid (filename u)) (files_dir s2)\<rparr>
                    else s2);
          s4 = s3\<lparr>files_dir := filter (\<lambda>(name, _). \<not> starts_with name fid) (files_dir s3)\<rparr>
      in release_lock s4 fid)"

definition write_at :: "bytes \<Rightarrow> bytes \<Rightarrow> nat \<Rightarrow> bytes" where
  \<comment> \<open>mode \<open>ab\<close> on an empty file; mode \<open>r+b\<close> with \<open>seek(offset)\<close> on a non-empty one\<close>
  "write_at old data off =
     (if old = [] then data
      else take off old @ replicate (off - length old) 0 @ data @ drop (off + length data) old)"

definition write_locked :: "env \<Rightarrow> server \<Rightarrow> string \<Rightarrow> bytes \<Rightarrow> int \<Rightarrow> (exn + int) \<times> server" where
  \<comment> \<open>the \<open>try\<close> block of \<open>write_chunk\<close> and its \<open>finally\<close>\<close>
  "write_locked e s fid data off =
     (case map_of (uploads_dir s) (get_file_path fid) of
        None \<Rightarrow> (Inl FileNotFoundError, release_lock s fid)
      | Some old \<Rightarrow>
          (case io e of
             OpenFault \<Rightarrow> (Inl OSError, release_lock s fid)
           | WriteFault k \<Rightarrow>
               if old \<noteq> [] \<and> off < 0 then (Inl OSError, release_lock s fid)
               else (Inl OSError,
                     release_lock
                       (s\<lparr>uploads_dir :=
                            AList.update (get_file_path fid) (write_at old (take k data) (nat off))
                              (uploads_dir s)\<rparr>) fid)
           | NoFault \<Rightarrow>
               if old \<noteq> [] \<and> off < 0 then (Inl OSError, release_lock s fid)
               else (Inr (int (length data)),
                     release_lock
                       (s\<lparr>uploads_dir :=
                            AList.update (get_file_path fid) (write_at old data (nat off))
                              (uploads_dir s)\<rparr>) fid)))"

definition write_chunk :: "env \<Rightarrow> server \<Rightarrow> string \<Rightarrow> bytes \<Rightarrow> int \<Rightarrow> (exn + int) \<times> server" where
  "write_chunk e s fid data off =
     (case acquire_lock s fid of
        (True, s1) \<Rightarrow> write_locked e s1 fid data off
      | (False, s1) \<Rightarrow>
          (case acquire_lock (sleep e s1) fid of
             (True, s2) \<Rightarrow> write_locked e s2 fid data off
           | (False, s2) \<Rightarrow> (Inl (RuntimeError ''Could not acquire lock for write''), s2)))"

definition int_truthy :: "int option \<Rightarrow> bool" where
  \<comment> \<open>Python truth of an optional integer: neither \<open>None\<close> nor zero\<close>
  "int_truthy v = (case v of None \<Rightarrow> False | Some n \<Rightarrow> n \<noteq> 0)"

definition finalize_upload :: "env \<Rightarrow> server \<Rightarrow> string \<Rightarrow> (exn + unit) \<times> server" where
  \<comment> \<open>After the rename the function computes \<open>retention_expires_at\<close>, which changes
     the local object only, and builds the dictionary \<open>file_info\<close>, whose entry
     \<open>"owner_id": upload.owner_id\<close> raises: the function ends there, before it writes the
     completed-file record and before it updates the upload record.\<close>
  "finalize_upload e s fid =
     (case get_upload s fid of
        None \<Rightarrow> (Inl (ValueError ''Upload not found''), s)
      | Some upload \<Rightarrow>
          if \<not> is_complete upload then (Inl (ValueError ''Upload not complete''), s)
          else
            let src = get_file_path fid;
                dst = get_final_path fid (filename upload);
                s1 = (case map_of (uploads_dir s) src of
                        None \<Rightarrow> s
                      | Some content \<Rightarrow>
                          s\<lparr>uploads_dir := AList.delete src (uploads_dir s),
                            files_dir := AList.update dst content (files_dir s)\<rparr>)
            in (Inl no_owner_id, s1))"

definition get_file_info :: "server \<Rightarrow> string \<Rightarrow> exn + file_info option" where
  \<comment> \<open>The dictionary built from an upload record has the entry
     \<open>"owner_id": upload.owner_id\<close>, which raises.\<close>
  "get_file_info s fid =
     (case state_get s (file_key fid) of
        Some (VFile info) \<Rightarrow> Inr (Some info)
      | _ \<Rightarrow>
          (case get_upload s fid of
             None \<Rightarrow> Inr None
           | Some upload \<Rightarrow> Inl no_owner_id))"

text \<open>
  \<open>get_storage_usage\<close>: the entries \<open>used\<close>, \<open>max\<close> and \<open>available\<close> of the dictionary,
  the ones the PATCH handler reads. \<open>used\<close> is the sum of the sizes of the files in
  \<open>uploads/\<close> and \<open>files/\<close>.
\<close>

record usage =
  used :: int
  max_bytes :: "int option"
  available :: "int option"

definition dir_size :: "(string \<times> bytes) list \<Rightarrow> int" where
  "dir_size d = sum_list (map (\<lambda>(name, content). int (length content)) d)"

definition get_storage_usage :: "config \<Rightarrow> server \<Rightarrow> usage" where
  "get_storage_usage cfg s =
     (let u = dir_size (uploads_dir s) + dir_size (files_dir s)
      in \<lparr> used = u,
           max_bytes = max_storage_size cfg,
           available = (if int_truthy (max_storage_size cfg)
                        then Some (max 0 (the (max_storage_size cfg) - u)) else None) \<rparr>)"

definition check_quota :: "config \<Rightarrow> server \<Rightarrow> int \<Rightarrow> bool \<times> usage" where
  "check_quota cfg s additional_bytes =
     (let usage = get_storage_usage cfg s
      in if \<not> int_truthy (max_storage_size cfg) then (True, usage)
         else (used usage + additional_bytes \<le> the (max_storage_size cfg), usage))"

section \<open>handler.py\<close>

text \<open>
  A request, by the headers the handlers read with \<open>request.headers.get\<close> (\<open>None\<close> for a
  header that is absent), its body and its URL. A handler returns a response or raises;
  either way it returns the server state it leaves behind.
\<close>

record request =
  tus_resumable :: "string option"
  upload_length :: "string option"
  upload_metadata :: "string option"
  content_type :: "string option"
  upload_offset :: "string option"
  upload_checksum :: "string option"
  auth_token :: "string option"
  body :: bytes
  url :: string

record response =
  status_code :: int
  headers :: "(string \<times> string) list"
  content :: string

definition isoformat :: "timestamp \<Rightarrow> string" where
  \<comment> \<open>the text of a timestamp; the model writes the integer\<close>
  "isoformat t = str_int t"

definition str_opt_int :: "int option \<Rightarrow> string" where
  \<comment> \<open>\<open>str(v)\<close> for an integer or \<open>None\<close>\<close>
  "str_opt_int v = (case v of None \<Rightarrow> ''None'' | Some n \<Rightarrow> str_int n)"

definition get_tus_headers :: "(string \<times> string) list" where
  "get_tus_headers = [(''Tus-Resumable'', TUS_VERSION), (''Tus-Version'', TUS_VERSION)]"

definition validate_tus_version :: "request \<Rightarrow> exn option" where
  \<comment> \<open>\<open>Some x\<close>: the function raises \<open>x\<close>\<close>
  "validate_tus_version req =
     (if truthy (tus_resumable req) \<and> the (tus_resumable req) \<noteq> TUS_VERSION
      then Some invalid_version else None)"

definition extensions :: "string list" where
  "extensions = [''creation'', ''creation-with-upload'', ''termination'', ''checksum'', ''expiration'']"

fun join_comma :: "string list \<Rightarrow> string" where
  "join_comma [] = []"
| "join_comma [x] = x"
| "join_comma (x # y # r) = x @ '','' @ join_comma (y # r)"

definition tus_options :: "config \<Rightarrow> request \<Rightarrow> response" where
  "tus_options cfg req =
     \<lparr> status_code = 204,
       headers = get_tus_headers @ [(''Tus-Extension'', join_comma extensions)]
                  @ (if int_truthy (max_size cfg)
                     then [(''Tus-Max-Size'', str_int (the (max_size cfg)))] else []),
       content = [] \<rparr>"

definition expired :: "env \<Rightarrow> TusUpload \<Rightarrow> bool" where
  \<comment> \<open>\<open>upload.expires_at and upload.expires_at < datetime.utcnow()\<close>\<close>
  "expired e u = (case expires_at u of None \<Rightarrow> False | Some t \<Rightarrow> t < now e)"

definition expires_header :: "TusUpload \<Rightarrow> (string \<times> string) list" where
  "expires_header u =
     (case expires_at u of None \<Rightarrow> [] | Some t \<Rightarrow> [(''Upload-Expires'', isoformat t)])"

definition parse_metadata :: "config \<Rightarrow> env \<Rightarrow> request \<Rightarrow> exn + TusMetadata" where
  \<comment> \<open>the block "Parse metadata" of \<open>tus_create\<close>\<close>
  "parse_metadata cfg e req =
     (if truthy (upload_metadata req)
      then (case from_header (b64decode_utf8 (codec cfg)) (the (upload_metadata req)) of
              Inl (ValueError m) \<Rightarrow> Inl (HTTPException 400 (''Invalid Upload-Metadata: '' @ m))
            | Inl x \<Rightarrow> Inl x
            | Inr md \<Rightarrow> Inr md)
      else Inr \<lparr> md_filename = ''upload_'' @ take 8 (fresh_name e),
                 md_filetype = None, md_checksum = None,
                 md_retention = None, md_retention_ttl = None \<rparr>)"

definition resolve_retention :: "config \<Rightarrow> request \<Rightarrow> TusMetadata \<Rightarrow> string \<times> int option" where
  \<comment> \<open>client metadata, then the token's policy, then the server default\<close>
  "resolve_retention cfg req md =
     (let (r, ttl) =
        (if truthy (md_retention md) then (the (md_retention md), md_retention_ttl md)
         else
           (case (if truthy (auth_token req)
                  then token_retention_policies cfg (the (auth_token req)) else None) of
              Some tp \<Rightarrow>
                ((case tp_default_retention tp of None \<Rightarrow> default_retention cfg | Some r \<Rightarrow> r),
                 (if md_retention_ttl md = None
                  then (case tp_default_ttl tp of None \<Rightarrow> default_retention_ttl cfg | Some t \<Rightarrow> Some t)
                  else md_retention_ttl md))
            | None \<Rightarrow>
                (default_retention cfg,
                 (if md_retention_ttl md = None then default_retention_ttl cfg
                  else md_retention_ttl md))))
      in (if r \<in> {''permanent'', ''download_once'', ''ttl''} then r else ''permanent'', ttl))"

definition created_response :: "request \<Rightarrow> TusUpload \<Rightarrow> response" where
  "created_response req upload =
     \<lparr> status_code = 201,
       headers = get_tus_headers
                  @ [(''Location'', rstrip_char CHR ''/'' (url req) @ ''/'' @ file_id upload),
                     (''Upload-Offset'', str_int (offset upload))]
                  @ expires_header upload,
       content = [] \<rparr>"

definition new_upload :: "config \<Rightarrow> env \<Rightarrow> request \<Rightarrow> int \<Rightarrow> TusMetadata \<Rightarrow> TusUpload" where
  \<comment> \<open>the blocks "Generate file ID" to "Create upload record" of \<open>tus_create\<close>\<close>
  "new_upload cfg e req len md =
     (let fid = fresh_id e;
          (ret, ttl) = resolve_retention cfg req md
      in \<lparr> file_id = fid,
           filename = md_filename md,
           upload_size = len,
           offset = 0,
           created_at = now e,
           updated_at = now e,
           expires_at = Some (now e + upload_expiration_seconds cfg),
           is_final = False,
           storage_path = ''uploads/'' @ get_file_path fid,
           checksum = md_checksum md,
           mime_type = md_filetype md,
           retention = ret,
           retention_ttl = ttl,
           retention_expires_at = None,
           download_count = 0 \<rparr>)"

definition store_new_upload ::
  "env \<Rightarrow> server \<Rightarrow> request \<Rightarrow> TusUpload \<Rightarrow> (exn + response) \<times> server" where
  \<comment> \<open>\<open>tus_create\<close> from "Save to storage" to its end\<close>
  "store_new_upload e s req upload =
     (let s1 = create_upload s upload
      in if body req \<noteq> [] \<and> ''creation-with-upload'' \<in> set extensions
            \<and> content_type req = Some CONTENT_TYPE_OFFSET
         then
           (case write_chunk e s1 (file_id upload) (body req) 0 of
              (Inl x, s2) \<Rightarrow> (Inl x, s2)
            | (Inr _, s2) \<Rightarrow>
                let upload1 = upload\<lparr>offset := int (length (body req)),
                                     updated_at := now e\<rparr>
                in (Inr (created_response req upload1), update_upload e s2 upload1))
         else (Inr (created_response req upload), s1))"

definition tus_create :: "config \<Rightarrow> env \<Rightarrow> server \<Rightarrow> request \<Rightarrow> (exn + response) \<times> server" where
  "tus_create cfg e s req =
     (case validate_tus_version req of
        Some x \<Rightarrow> (Inl x, s)
      | None \<Rightarrow>
          if \<not> truthy (upload_length req)
          then (Inl (HTTPException 400 ''Missing Upload-Length header''), s)
          else
            (case py_int (the (upload_length req)) of
               None \<Rightarrow> (Inl (HTTPException 400 ''Invalid Upload-Length header''), s)
             | Some len \<Rightarrow>
                 if int_truthy (max_size cfg) \<and> the (max_size cfg) < len
                 then (Inl (HTTPException 413 ''Upload exceeds maximum size''), s)
                 else
                   (case parse_metadata cfg e req of
                      Inl x \<Rightarrow> (Inl x, s)
                    | Inr md \<Rightarrow> store_new_upload e s req (new_upload cfg e req len md))))"

definition tus_head :: "env \<Rightarrow> server \<Rightarrow> string \<Rightarrow> request \<Rightarrow> (exn + response) \<times> server" where
  "tus_head e s fid req =
     (case validate_tus_version req of
        Some x \<Rightarrow> (Inl x, s)
      | None \<Rightarrow>
          (case get_upload s fid of
             None \<Rightarrow> (Inl (HTTPException 404 ''Upload not found''), s)
           | Some upload \<Rightarrow>
               if expired e upload
               then (Inl (HTTPException 410 ''Upload has expired''), delete_upload s fid)
               else
                 (Inr \<lparr> status_code = 200,
                        headers = get_tus_headers
                                   @ [(''Upload-Offset'', str_int (offset upload)),
                                      (''Upload-Length'', str_int (upload_size upload))]
                                   @ expires_header upload
                                   @ [(''Cache-Control'', ''no-store'')],
                        content = [] \<rparr>, s)))"

definition validate_checksum :: "config \<Rightarrow> request \<Rightarrow> bytes \<Rightarrow> exn option" where
  \<comment> \<open>the block "Validate checksum if provided" of \<open>tus_patch\<close>; \<open>Some x\<close>: it raises \<open>x\<close>\<close>
  "validate_checksum cfg req chunk_data =
     (if \<not> truthy (upload_checksum req) then None
      else
        (case split_once CHR '' '' (the (upload_checksum req)) of
           [algo, expected] \<Rightarrow>
             if lower algo = ''sha256''
             then (if sha256_hex (codec cfg) chunk_data \<noteq> expected
                   then Some (HTTPException 460 ''Checksum mismatch'') else None)
             else if lower algo = ''sha1''
             then (if sha1_hex (codec cfg) chunk_data \<noteq> expected
                   then Some (HTTPException 460 ''Checksum mismatch'') else None)
             else if lower algo = ''md5''
             then (if md5_hex (codec cfg) chunk_data \<noteq> expected
                   then Some (HTTPException 460 ''Checksum mismatch'') else None)
             else Some (HTTPException 400 (''Unsupported checksum algorithm: '' @ algo))
         | _ \<Rightarrow> Some (ValueError ''not enough values to unpack'')))"

definition quota_response :: "TusUpload \<Rightarrow> usage \<Rightarrow> response" where
  "quota_response upload usage =
     \<lparr> status_code = 507,
       headers = get_tus_headers
                  @ [(''Upload-Offset'', str_int (offset upload)),
                     (''Retry-After'', ''10''),
                     (''X-Storage-Used'', str_int (used usage)),
                     (''X-Storage-Max'', str_opt_int (max_bytes usage)),
                     (''X-Storage-Available'', str_opt_int (available usage))],
       content = ''Storage quota exceeded. Retry after space is freed.'' \<rparr>"

definition patch_write ::
  "env \<Rightarrow> server \<Rightarrow> string \<Rightarrow> TusUpload \<Rightarrow> int \<Rightarrow> bytes \<Rightarrow> (exn + response) \<times> server" where
  \<comment> \<open>\<open>tus_patch\<close> from "Write chunk to storage" to its end\<close>
  "patch_write e s fid upload off chunk_data =
     (case write_chunk e s fid chunk_data off of
        (Inl x, s1) \<Rightarrow> (Inl x, s1)
      | (Inr _, s1) \<Rightarrow>
          let new_offset = off + int (length chunk_data);
              upload1 = upload\<lparr>offset := new_offset, updated_at := now e\<rparr>;
              upload2 = (if upload_size upload1 \<le> new_offset
                         then upload1\<lparr>is_final := True\<rparr> else upload1);
              s2 = update_upload e s1 upload2;
              resp = \<lparr> status_code = 204,
                       headers = get_tus_headers
                                  @ [(''Upload-Offset'', str_int new_offset)]
                                  @ expires_header upload2,
                       content = [] \<rparr>
          in if is_final upload2
             then (case finalize_upload e s2 fid of
                     (Inl x, s3) \<Rightarrow> (Inl x, s3)
                   | (Inr _, s3) \<Rightarrow> (Inr resp, s3))
             else (Inr resp, s2))"

definition tus_patch ::
  "config \<Rightarrow> env \<Rightarrow> server \<Rightarrow> string \<Rightarrow> request \<Rightarrow> (exn + response) \<times> server" where
  "tus_patch cfg e s fid req =
     (case validate_tus_version req of
        Some x \<Rightarrow> (Inl x, s)
      | None \<Rightarrow>
          if content_type req \<noteq> Some CONTENT_TYPE_OFFSET
          then (Inl (HTTPException 415 ''Unsupported Content-Type''), s)
          else
            (case get_upload s fid of
               None \<Rightarrow> (Inl (HTTPException 404 ''Upload not found''), s)
             | Some upload \<Rightarrow>
                 if expired e upload
                 then (Inl (HTTPException 410 ''Upload has expired''), delete_upload s fid)
                 else if \<not> truthy (upload_offset req)
                 then (Inl (HTTPException 400 ''Missing Upload-Offset header''), s)
                 else
                   (case py_int (the (upload_offset req)) of
                      None \<Rightarrow> (Inl (HTTPException 400 ''Invalid Upload-Offset header''), s)
                    | Some off \<Rightarrow>
                        if off \<noteq> offset upload
                        then (Inl (HTTPException 409 ''Offset mismatch''), s)
                        else if body req = []
                        then (Inl (HTTPException 400 ''Empty request body''), s)
                        else
                          (case check_quota cfg s (int (length (body req))) of
                             (False, usage) \<Rightarrow> (Inr (quota_response upload usage), s)
                           | (True, usage) \<Rightarrow>
                               if upload_size upload < off + int (length (body req))
                               then (Inl (HTTPException 400 ''Chunk exceeds upload size''), s)
                               else
                                 (case validate_checksum cfg req (body req) of
                                    Some x \<Rightarrow> (Inl x, s)
                                  | None \<Rightarrow> patch_write e s fid upload off (body req))))))"

definition tus_delete :: "server \<Rightarrow> string \<Rightarrow> request \<Rightarrow> (exn + response) \<times> server" where
  "tus_delete s fid req =
     (case validate_tus_version req of
        Some x \<Rightarrow> (Inl x, s)
      | None \<Rightarrow>
          (case get_upload s fid of
             None \<Rightarrow> (Inl (HTTPException 404 ''Upload not found''), s)
           | Some upload \<Rightarrow>
               (Inr \<lparr> status_code = 204, headers = get_tus_headers, content = [] \<rparr>,
                delete_upload s fid)))"

text \<open>
  The status a client sees: the status of the response, or the status of a raised
  \<open>HTTPException\<close>, which the framework turns into a response. The sources register no
  handler for any other exception, so no status is given for one.
\<close>

definition response_status :: "exn + response \<Rightarrow> int option" where
  "response_status r =
     (case r of
        Inr resp \<Rightarrow> Some (status_code resp)
      | Inl (HTTPException c _) \<Rightarrow> Some c
      | Inl _ \<Rightarrow> None)"

text \<open>
  An exception that is not an \<open>HTTPException\<close> is taken by no handler (main.py registers
  none) and ends in the server's answer to an unhandled error, status 500.
\<close>

definition served_status :: "exn + response \<Rightarrow> int" where
  "served_status r = (case response_status r of Some c \<Rightarrow> c | None \<Rightarrow> 500)"

section \<open>routes/files.py: the download handler\<close>

definition parse_range :: "string \<Rightarrow> int \<Rightarrow> (int \<times> int) option" where
  \<comment> \<open>the \<open>try\<close> block of \<open>download_file\<close>: \<open>start\<close> and \<open>end\<close>, or \<open>None\<close> for \<open>ValueError\<close>\<close>
  "parse_range range_header available_size =
     (let range_spec = remove_all ''bytes='' range_header
      in if CHR ''-'' \<in> set range_spec
         then
           (case split_on CHR ''-'' range_spec of
              p0 # p1 # _ \<Rightarrow>
                (case (if p0 \<noteq> [] then py_int p0 else Some 0) of
                   None \<Rightarrow> None
                 | Some start \<Rightarrow>
                     (case (if p1 \<noteq> [] then map_option (\<lambda>n. min n (available_size - 1)) (py_int p1)
                            else Some (available_size - 1)) of
                        None \<Rightarrow> None
                      | Some end \<Rightarrow> Some (start, end)))
            | _ \<Rightarrow> None)
         else Some (0, available_size - 1))"

definition download_response :: "file_info \<Rightarrow> string option \<Rightarrow> (exn + response) \<times> bool" where
  \<comment> \<open>\<open>download_file\<close> once the file is found. The second component tells whether the
     background task \<open>_after_download\<close> was added. The body, streamed by
     \<open>generate_chunks\<close>, and the media type are not part of the model.\<close>
  "download_response info range_header =
     (let available_size = fi_available_size info;
          total_size = fi_size info
      in case (if truthy range_header then parse_range (the range_header) available_size
               else Some (0, available_size - 1)) of
           None \<Rightarrow> (Inl (HTTPException 416 ''Invalid Range header''), False)
         | Some (start, end) \<Rightarrow>
             if truthy range_header \<and> (available_size \<le> start \<or> end < start)
             then (Inl (HTTPException 416 ''Range not satisfiable''), False)
             else
               let content_length = end - start + 1;
                   is_full_download = (start = 0 \<and> end = available_size - 1);
                   hdrs = [(''Content-Disposition'', ''attachment; filename='' @ [CHR 0x22] @ fi_filename info @ [CHR 0x22]),
                           (''Accept-Ranges'', ''bytes''),
                           (''Content-Length'', str_int content_length),
                           (''X-Retention-Policy'', fi_retention info)]
                          @ (case fi_retention_expires_at info of
                               None \<Rightarrow> []
                             | Some t \<Rightarrow> [(''X-Retention-Expires'', isoformat t)])
                          @ (if fi_retention info = ''download_once'' \<and> is_full_download
                             then [(''X-Retention-Warning'', ''File will be deleted after this download'')]
                             else [])
                          @ [(''X-Download-Count'', str_int (fi_download_count info + 1))]
               in if truthy range_header \<or> available_size < total_size
                  then (Inr \<lparr> status_code = 206,
                              headers = hdrs @ [(''Content-Range'',
                                                 ''bytes '' @ str_int start @ ''-'' @ str_int end
                                                   @ ''/'' @ str_int total_size)],
                              content = [] \<rparr>, is_full_download)
                  else (Inr \<lparr> status_code = 200, headers = hdrs, content = [] \<rparr>,
                        is_full_download))"

definition download_file :: "server \<Rightarrow> string \<Rightarrow> string option \<Rightarrow> (exn + response) \<times> bool" where
  "download_file s fid range_header =
     (case get_file_info s fid of
        Inl x \<Rightarrow> (Inl x, False)
      | Inr None \<Rightarrow> (Inl (HTTPException 404 ''File not found''), False)
      | Inr (Some info) \<Rightarrow> download_response info range_header)"

section \<open>Concrete configurations, states and requests\<close>

text \<open>
  The examples below run the handlers on these values. The decoder of \<open>codec0\<close> is the
  one of the standard library; its digests are constant.
\<close>

definition codec0 :: codecs where
  "codec0 = \<lparr> b64decode_utf8 = py_b64decode_utf8,
              sha256_hex = (\<lambda>d. ''00''), sha1_hex = (\<lambda>d. ''11''), md5_hex = (\<lambda>d. ''22'') \<rparr>"

definition cfg0 :: config where
  "cfg0 = \<lparr> max_size = None, max_storage_size = None, chunk_size = 4194304,
            upload_expiration_seconds = 86400, default_retention = ''permanent'',
            default_retention_ttl = None, token_retention_policies = Map.empty,
            codec = codec0 \<rparr>"

definition env0 :: env where
  "env0 = \<lparr> now = 1000, sleep = (\<lambda>s. s), io = NoFault,
            fresh_id = ''0123456789abcdef0123456789abcdef'',
            fresh_name = ''fedcba9876543210fedcba9876543210'' \<rparr>"

definition server0 :: server where
  "server0 = \<lparr> kv = Map.empty, uploads_dir = [], files_dir = [] \<rparr>"

definition request0 :: request where
  "request0 = \<lparr> tus_resumable = Some ''1.0.0'', upload_length = None, upload_metadata = None,
                content_type = None, upload_offset = None, upload_checksum = None,
                auth_token = None, body = [], url = ''http://host/tus'' \<rparr>"

definition old_version :: request where
  \<comment> \<open>a request that names another version of the protocol\<close>
  "old_version = request0\<lparr>tus_resumable := Some ''0.2.2''\<rparr>"

definition post_plain :: request where
  \<comment> \<open>a POST with \<open>Upload-Length: 10\<close>, no \<open>Upload-Metadata\<close> and no body\<close>
  "post_plain = request0\<lparr>upload_length := Some ''10''\<rparr>"

definition post_no_filename :: request where
  \<comment> \<open>the same POST with metadata that has a \<open>filetype\<close> and no \<open>filename\<close>\<close>
  "post_no_filename = post_plain\<lparr>upload_metadata := Some ''filetype YS50eHQ=''\<rparr>"

definition post_negative :: request where
  "post_negative = request0\<lparr>upload_length := Some ''-5''\<rparr>"

definition post_overlong :: request where
  \<comment> \<open>creation with upload: one byte declared, five bytes sent\<close>
  "post_overlong = request0\<lparr>upload_length := Some ''1'',
                     content_type := Some ''application/offset+octet-stream'',
                     body := [1, 2, 3, 4, 5]\<rparr>"



definition info_complete :: file_info where
  \<comment> \<open>the dictionary of a completed file of ten bytes\<close>
  "info_complete =
     \<lparr> fi_file_id = ''f1'', fi_filename = ''a.txt'', fi_size = 10, fi_available_size = 10,
       fi_mime_type = None, fi_checksum = None, fi_is_complete = True, fi_created_at = 0,
       fi_completed_at = Some 5, fi_storage_path = Some ''files/f1_a.txt'',
       fi_retention = ''permanent'', fi_retention_ttl = None, fi_retention_expires_at = None,
       fi_download_count = 0, fi_owner_id = None \<rparr>"

definition server_complete :: server where
  "server_complete =
     \<lparr> kv = [file_key ''f1'' \<mapsto> VFile info_complete],
       uploads_dir = [],
       files_dir = [(''f1_a.txt'', replicate 10 0)] \<rparr>"

text \<open>
  The PATCH passes every check of \<open>tus_patch\<close> that comes before quota admission, on
  the upload record \<open>u\<close>.
\<close>

definition reaches_quota :: "env \<Rightarrow> server \<Rightarrow> string \<Rightarrow> request \<Rightarrow> TusUpload \<Rightarrow> bool" where
  "reaches_quota e s fid req u =
     (validate_tus_version req = None
      \<and> content_type req = Some CONTENT_TYPE_OFFSET
      \<and> get_upload s fid = Some u
      \<and> \<not> expired e u
      \<and> truthy (upload_offset req)
      \<and> py_int (the (upload_offset req)) = Some (offset u)
      \<and> body req \<noteq> [])"

definition upload_open :: TusUpload where
  \<comment> \<open>an upload of three bytes, nothing received yet\<close>
  "upload_open =
     \<lparr> file_id = ''f1'', filename = ''a.txt'', upload_size = 3, offset = 0,
       created_at = 0, updated_at = 0, expires_at = Some 5000, is_final = False,
       storage_path = ''uploads/f1'', checksum = None, mime_type = None,
       retention = ''permanent'', retention_ttl = None, retention_expires_at = None,
       download_count = 0 \<rparr>"

definition server_open :: server where
  "server_open =
     \<lparr> kv = [upload_key ''f1'' \<mapsto> VUpload upload_open],
       uploads_dir = [(''f1'', [])],
       files_dir = [] \<rparr>"

definition patch_first :: request where
  "patch_first = request0\<lparr>content_type := Some ''application/offset+octet-stream'',
                    upload_offset := Some ''0'', body := [1, 2, 3]\<rparr>"

definition patch_bad_digest :: request where
  \<comment> \<open>the tag in capitals, a digest that is not the one \<open>codec0\<close> computes\<close>
  "patch_bad_digest = patch_first\<lparr>upload_checksum := Some ''SHA256 ff''\<rparr>"

text \<open>
  An upload whose record is flagged final and is complete.
\<close>

definition final_state :: "server \<Rightarrow> string \<Rightarrow> TusUpload \<Rightarrow> bool" where
  "final_state s fid u = (get_upload s fid = Some u \<and> is_final u \<and> is_complete u)"

definition patch_again :: request where
  \<comment> \<open>one more byte at offset 3\<close>
  "patch_again = patch_first\<lparr>upload_offset := Some ''3'', body := [4]\<rparr>"

definition server_final :: server where
  \<comment> \<open>the state after the PATCH that completes \<open>upload_open\<close>\<close>
  "server_final = snd (tus_patch cfg0 env0 server_open ''f1'' patch_first)"

text \<open>
  The state that \<open>finalize_upload\<close> is written to leave for the same upload: the record
  rewritten with the final path, the completed-file record beside it, the bytes in
  \<open>files/\<close>. The code does not reach it, since \<open>finalize_upload\<close> raises before it
  writes either record.
\<close>

definition upload_finalized :: TusUpload where
  "upload_finalized =
     upload_open\<lparr>offset := 3, updated_at := 1000, is_final := True,
                  storage_path := ''files/f1_a.txt''\<rparr>"

definition info_finalized :: file_info where
  "info_finalized =
     \<lparr> fi_file_id = ''f1'', fi_filename = ''a.txt'', fi_size = 3, fi_available_size = 3,
       fi_mime_type = None, fi_checksum = None, fi_is_complete = True, fi_created_at = 0,
       fi_completed_at = Some 1000, fi_storage_path = Some ''files/f1_a.txt'',
       fi_retention = ''permanent'', fi_retention_ttl = None, fi_retention_expires_at = None,
       fi_download_count = 0, fi_owner_id = None \<rparr>"

definition server_finalized :: server where
  "server_finalized =
     \<lparr> kv = [upload_key ''f1'' \<mapsto> VUpload upload_finalized,
             file_key ''f1'' \<mapsto> VFile info_finalized],
       uploads_dir = [],
       files_dir = [(''f1_a.txt'', [1, 2, 3])] \<rparr>"

definition cfg_quota :: config where
  \<comment> \<open>a storage quota of ten bytes\<close>
  "cfg_quota = cfg0\<lparr>max_storage_size := Some 10\<rparr>"

definition server_full :: server where
  \<comment> \<open>\<open>server_open\<close> with nine bytes of another upload on disk\<close>
  "server_full = server_open\<lparr>uploads_dir := [(''f1'', []), (''other'', replicate 9 0)]\<rparr>"

definition patch_two :: request where
  \<comment> \<open>two bytes for the upload of three\<close>
  "patch_two = patch_first\<lparr>body := [1, 2]\<rparr>"

definition patch_big :: request where
  \<comment> \<open>five bytes for the upload of three\<close>
  "patch_big = patch_first\<lparr>body := [1, 2, 3, 4, 5]\<rparr>"

section \<open>Properties\<close>

subsection \<open>The protocol version check\<close>

text \<open>
  POST, HEAD, PATCH and DELETE validate the \<open>Tus-Resumable\<close> header first: when it
  carries a non-empty value other than \<open>1.0.0\<close>, each of them raises
  \<open>TusErrors.invalid_version()\<close> and leaves the server state untouched. The exception
  is a \<open>TusError\<close>, not an \<open>HTTPException\<close>, so the answer is not the 412 it carries.
\<close>

lemma version_mismatch_raises:
  assumes "tus_resumable req = Some v" and "v \<noteq> []" and "v \<noteq> TUS_VERSION"
  shows "tus_create cfg e s req = (Inl invalid_version, s)
       \<and> tus_head e s fid req = (Inl invalid_version, s)
       \<and> tus_patch cfg e s fid req = (Inl invalid_version, s)
       \<and> tus_delete s fid req = (Inl invalid_version, s)"
  using assms
  by (simp add: tus_create_def tus_head_def tus_patch_def tus_delete_def
        validate_tus_version_def truthy_def)

lemma invalid_version_status:
  "response_status (Inl invalid_version) = None \<and> served_status (Inl invalid_version) = 500"
  by (simp add: response_status_def served_status_def invalid_version_def)

text \<open>
  OPTIONS does not look at the header: \<open>tus_options\<close> has no call of
  \<open>validate_tus_version\<close>, and answers 204 whatever the request.
\<close>

lemma options_ignores_version: "status_code (tus_options cfg req) = 204"
  by (simp add: tus_options_def)

text \<open>
  C2 (the code at the failing input). A HEAD, POST, PATCH or DELETE request whose
  \<open>Tus-Resumable\<close> header is \<open>0.2.2\<close> makes the handler raise the \<open>TusError\<close> that
  carries 412. No handler is registered for that exception, so no response with status
  412 is made from it: the request is answered 500, where the claim says 412. The server
  state is untouched.
\<close>

theorem C2_version_error_unhandled:
  "tus_resumable old_version = Some ''0.2.2''
   \<and> tus_head env0 server_open ''f1'' old_version
       = (Inl (TusError 412 ''Precondition Failed: Invalid Tus-Resumable header''), server_open)
   \<and> response_status (fst (tus_head env0 server_open ''f1'' old_version)) = None
   \<and> served_status (fst (tus_head env0 server_open ''f1'' old_version)) = 500
   \<and> served_status (fst (tus_create cfg0 env0 server_open old_version)) = 500
   \<and> served_status (fst (tus_patch cfg0 env0 server_open ''f1'' old_version)) = 500
   \<and> served_status (fst (tus_delete server_open ''f1'' old_version)) = 500"
proof -
  have h: "tus_resumable old_version = Some ''0.2.2''"
    by (simp add: old_version_def)
  have "''0.2.2'' \<noteq> [] \<and> ''0.2.2'' \<noteq> TUS_VERSION"
    by (simp add: TUS_VERSION_def)
  then have r: "tus_create cfg0 env0 server_open old_version = (Inl invalid_version, server_open)
       \<and> tus_head env0 server_open ''f1'' old_version = (Inl invalid_version, server_open)
       \<and> tus_patch cfg0 env0 server_open ''f1'' old_version = (Inl invalid_version, server_open)
       \<and> tus_delete server_open ''f1'' old_version = (Inl invalid_version, server_open)"
    using h by (intro version_mismatch_raises) simp_all
  show ?thesis
    using h r invalid_version_status by (simp add: invalid_version_def)
qed

subsection \<open>Auxiliary facts about the storage and the creation handler\<close>

lemma get_upload_create_upload:
  "get_upload (create_upload s u) (file_id u) = Some u"
  by (simp add: get_upload_def create_upload_def state_set_def state_get_def Let_def)

lemma get_upload_update_upload:
  "get_upload (update_upload e s u) (file_id u) = Some (u\<lparr>updated_at := now e\<rparr>)"
  by (simp add: get_upload_def update_upload_def state_set_def state_get_def)

lemma write_locked_not_http:
  "write_locked e s fid d off = (Inl x, s') \<Longrightarrow> x \<noteq> HTTPException c m"
  by (auto simp: write_locked_def split: option.splits io_fault.splits if_splits)

lemma write_chunk_not_http:
  "write_chunk e s fid d off = (Inl x, s') \<Longrightarrow> x \<noteq> HTTPException c m"
  by (auto simp: write_chunk_def split: prod.splits bool.splits dest: write_locked_not_http)

lemma lock_key_not_upload_key: "lock_key a \<noteq> upload_key b"
  by (simp add: lock_key_def upload_key_def)

lemma lock_key_not_file_key: "lock_key a \<noteq> file_key b"
  by (simp add: lock_key_def file_key_def)

lemma file_key_not_upload_key: "file_key a \<noteq> upload_key b"
  by (simp add: file_key_def upload_key_def)

lemma upload_key_inj: "upload_key a = upload_key b \<longleftrightarrow> a = b"
  by (simp add: upload_key_def)

lemma write_chunk_ok:
  assumes "kv s (lock_key fid) = None"
      and "map_of (uploads_dir s) (get_file_path fid) = Some old"
      and "io e = NoFault"
      and "old = [] \<or> 0 \<le> off"
  shows "write_chunk e s fid d off
       = (Inr (int (length d)),
          s\<lparr>uploads_dir := AList.update (get_file_path fid) (write_at old d (nat off)) (uploads_dir s)\<rparr>)"
  using assms
  by (auto simp: write_chunk_def acquire_lock_def state_set_def write_locked_def
        release_lock_def state_delete_def fun_upd_idem)

lemma store_new_upload_not_http:
  "fst (store_new_upload e s req u) \<noteq> Inl (HTTPException c m)"
  by (auto simp: store_new_upload_def Let_def split: prod.splits sum.splits
           dest: write_chunk_not_http)

lemma store_new_upload_created:
  assumes "fst (store_new_upload e s req u) = Inr r"
  shows "status_code r = 201
       \<and> (\<exists>u'. get_upload (snd (store_new_upload e s req u)) (file_id u) = Some u'
                \<and> filename u' = filename u \<and> upload_size u' = upload_size u)"
  using assms get_upload_create_upload [of s u]
    get_upload_update_upload [of e _ "u\<lparr>offset := int (length (body req)), updated_at := now e\<rparr>"]
  by (auto simp: store_new_upload_def Let_def created_response_def
           split: prod.splits sum.splits if_splits)

lemma store_new_upload_plain:
  "body req = [] \<Longrightarrow>
   store_new_upload e s req u = (Inr (created_response req u), create_upload s u)"
  by (simp add: store_new_upload_def Let_def)

lemma store_new_upload_with_body:
  assumes "body req \<noteq> []" and "content_type req = Some CONTENT_TYPE_OFFSET"
      and "kv s (lock_key (file_id u)) = None" and "io e = NoFault"
  shows "fst (store_new_upload e s req u)
           = Inr (created_response req (u\<lparr>offset := int (length (body req)), updated_at := now e\<rparr>))
       \<and> get_upload (snd (store_new_upload e s req u)) (file_id u)
           = Some (u\<lparr>offset := int (length (body req)), updated_at := now e\<rparr>)"
proof -
  let ?s1 = "create_upload s u"
  have l: "kv ?s1 (lock_key (file_id u)) = None"
    using assms(3) by (simp add: create_upload_def state_set_def Let_def lock_key_not_upload_key)
  have f: "map_of (uploads_dir ?s1) (get_file_path (file_id u)) = Some []"
    by (simp add: create_upload_def state_set_def Let_def update_conv')
  have w: "write_chunk e ?s1 (file_id u) (body req) 0
       = (Inr (int (length (body req))),
          ?s1\<lparr>uploads_dir := AList.update (get_file_path (file_id u)) (write_at [] (body req) (nat 0))
             (uploads_dir ?s1)\<rparr>)"
    using write_chunk_ok [OF l f assms(4), of 0 "body req"] by simp
  show ?thesis
    using assms(1,2) w
      get_upload_update_upload [of e _ "u\<lparr>offset := int (length (body req)), updated_at := now e\<rparr>"]
    by (simp add: store_new_upload_def Let_def extensions_def)
qed

lemma new_upload_fields:
  "file_id (new_upload cfg e req len md) = fresh_id e
   \<and> filename (new_upload cfg e req len md) = md_filename md
   \<and> upload_size (new_upload cfg e req len md) = len
   \<and> offset (new_upload cfg e req len md) = 0"
  by (simp add: new_upload_def Let_def split: prod.splits)

lemma create_accepts:
  assumes "validate_tus_version req = None"
      and "truthy (upload_length req)"
      and "py_int (the (upload_length req)) = Some len"
      and "\<not> (int_truthy (max_size cfg) \<and> the (max_size cfg) < len)"
      and "parse_metadata cfg e req = Inr md"
  shows "tus_create cfg e s req = store_new_upload e s req (new_upload cfg e req len md)"
  using assms by (auto simp: tus_create_def)

lemma parse_metadata_absent:
  "\<not> truthy (upload_metadata req) \<Longrightarrow>
   parse_metadata cfg e req
     = Inr \<lparr> md_filename = ''upload_'' @ take 8 (fresh_name e),
              md_filetype = None, md_checksum = None,
              md_retention = None, md_retention_ttl = None \<rparr>"
  by (simp add: parse_metadata_def)


lemma post_plain_checks:
  "validate_tus_version post_plain = None \<and> truthy (upload_length post_plain)
   \<and> py_int (the (upload_length post_plain)) = Some 10
   \<and> \<not> truthy (upload_metadata post_plain) \<and> body post_plain = []"
  by code_simp

lemma cfg0_unlimited:
  "\<not> int_truthy (max_size cfg0) \<and> \<not> int_truthy (max_storage_size cfg0)"
  by (simp add: cfg0_def int_truthy_def)

lemma post_negative_checks:
  "validate_tus_version post_negative = None \<and> truthy (upload_length post_negative)
   \<and> py_int (the (upload_length post_negative)) = Some (- 5)
   \<and> \<not> truthy (upload_metadata post_negative) \<and> body post_negative = []"
  by code_simp

lemma post_overlong_checks:
  "validate_tus_version post_overlong = None \<and> truthy (upload_length post_overlong)
   \<and> py_int (the (upload_length post_overlong)) = Some 1
   \<and> \<not> truthy (upload_metadata post_overlong) \<and> body post_overlong = [1, 2, 3, 4, 5]
   \<and> content_type post_overlong = Some CONTENT_TYPE_OFFSET"
  by code_simp

lemma create_rejects_bad_length:
  assumes "validate_tus_version req = None"
      and "\<not> truthy (upload_length req) \<or> py_int (the (upload_length req)) = None"
  shows "response_status (fst (tus_create cfg e s req)) = Some 400 \<and> snd (tus_create cfg e s req) = s"
  using assms by (auto simp: tus_create_def response_status_def)

subsection \<open>Creation: the filename\<close>

text \<open>
  C5 (as amended). For a POST that passes the version check and whose \<open>Upload-Length\<close>
  is an integer within the size limit: when a non-empty \<open>Upload-Metadata\<close> header is sent
  and its parsed metadata has no \<open>filename\<close>, the handler raises 400 and changes nothing;
  when the header is absent or empty, the POST is not refused with 400: the upload is
  created under the generated name \<open>upload_\<close> followed by eight characters of a fresh
  identifier, and a POST without a body is answered 201.
\<close>

theorem C5_filename_required:
  assumes "validate_tus_version req = None"
      and "truthy (upload_length req)"
      and "py_int (the (upload_length req)) = Some len"
      and "\<not> (int_truthy (max_size cfg) \<and> the (max_size cfg) < len)"
  shows "(truthy (upload_metadata req)
          \<and> parse_items (b64decode_utf8 (codec cfg))
                (split_on CHR '','' (the (upload_metadata req))) Map.empty ''filename'' = None
          \<longrightarrow> tus_create cfg e s req
                = (Inl (HTTPException 400
                     ''Invalid Upload-Metadata: filename is required in metadata''), s))
       \<and> (\<not> truthy (upload_metadata req)
          \<longrightarrow> (\<forall>m. fst (tus_create cfg e s req) \<noteq> Inl (HTTPException 400 m))
              \<and> (\<forall>r. fst (tus_create cfg e s req) = Inr r
                     \<longrightarrow> status_code r = 201
                         \<and> (\<exists>u. get_upload (snd (tus_create cfg e s req)) (fresh_id e) = Some u
                                \<and> filename u = ''upload_'' @ take 8 (fresh_name e)))
              \<and> (body req = [] \<longrightarrow> (\<exists>r. fst (tus_create cfg e s req) = Inr r)))"
proof (intro conjI impI)
  assume a: "truthy (upload_metadata req)
     \<and> parse_items (b64decode_utf8 (codec cfg))
          (split_on CHR '','' (the (upload_metadata req))) Map.empty ''filename'' = None"
  then have "the (upload_metadata req) \<noteq> []"
    by (auto simp: truthy_def split: option.splits)
  with a have "parse_metadata cfg e req
      = Inl (HTTPException 400 ''Invalid Upload-Metadata: filename is required in metadata'')"
    by (simp add: parse_metadata_def from_header_def Let_def)
  with assms show "tus_create cfg e s req
      = (Inl (HTTPException 400 ''Invalid Upload-Metadata: filename is required in metadata''), s)"
    by (auto simp: tus_create_def)
next
  assume b: "\<not> truthy (upload_metadata req)"
  define md where "md = \<lparr> md_filename = ''upload_'' @ take 8 (fresh_name e),
                 md_filetype = None, md_checksum = None,
                 md_retention = None, md_retention_ttl = None \<rparr>"
  from b have pm: "parse_metadata cfg e req = Inr md"
    by (simp add: parse_metadata_absent md_def)
  have tc: "tus_create cfg e s req = store_new_upload e s req (new_upload cfg e req len md)"
    using assms pm by (rule create_accepts)
  show "\<forall>m. fst (tus_create cfg e s req) \<noteq> Inl (HTTPException 400 m)"
    by (simp add: tc store_new_upload_not_http)
  show "\<forall>r. fst (tus_create cfg e s req) = Inr r
          \<longrightarrow> status_code r = 201
              \<and> (\<exists>u. get_upload (snd (tus_create cfg e s req)) (fresh_id e) = Some u
                     \<and> filename u = ''upload_'' @ take 8 (fresh_name e))"
    using store_new_upload_created [of e s req "new_upload cfg e req len md"]
      new_upload_fields [of cfg e req len md]
    by (auto simp: tc md_def)
  show "body req = [] \<Longrightarrow> \<exists>r. fst (tus_create cfg e s req) = Inr r"
    by (simp add: tc store_new_upload_plain)
qed

theorem C5_filename_required_witness:
  "validate_tus_version post_no_filename = None
   \<and> truthy (upload_length post_no_filename)
   \<and> py_int (the (upload_length post_no_filename)) = Some 10
   \<and> \<not> (int_truthy (max_size cfg0) \<and> the (max_size cfg0) < 10)
   \<and> truthy (upload_metadata post_no_filename)
   \<and> tus_create cfg0 env0 server0 post_no_filename
       = (Inl (HTTPException 400
                     ''Invalid Upload-Metadata: filename is required in metadata''), server0)"
proof -
  have h1: "validate_tus_version post_no_filename = None" by code_simp
  have h2: "truthy (upload_length post_no_filename)" by code_simp
  have h3: "py_int (the (upload_length post_no_filename)) = Some 10" by code_simp
  have h4: "\<not> (int_truthy (max_size cfg0) \<and> the (max_size cfg0) < 10)"
    using cfg0_unlimited by simp
  have h5: "truthy (upload_metadata post_no_filename)" by code_simp
  have h6: "parse_items (b64decode_utf8 (codec cfg0))
                (split_on CHR '','' (the (upload_metadata post_no_filename))) Map.empty ''filename'' = None"
    by code_simp
  show ?thesis
    using C5_filename_required [OF h1 h2 h3 h4, of env0 server0] h1 h2 h3 h4 h5 h6 by simp
qed

text \<open>
  The claim as stated fails for a POST that carries no \<open>Upload-Metadata\<close> header: it is
  answered 201.
\<close>

theorem C5_counterexample:
  "upload_metadata post_plain = None
   \<and> response_status (fst (tus_create cfg0 env0 server0 post_plain)) = Some 201"
proof -
  have "tus_create cfg0 env0 server0 post_plain
      = store_new_upload env0 server0 post_plain (new_upload cfg0 env0 post_plain 10
          \<lparr> md_filename = ''upload_'' @ take 8 (fresh_name env0),
              md_filetype = None, md_checksum = None,
              md_retention = None, md_retention_ttl = None \<rparr>)"
    using post_plain_checks cfg0_unlimited by (intro create_accepts parse_metadata_absent) simp_all
  then show ?thesis
    using post_plain_checks
    by (simp add: store_new_upload_plain response_status_def created_response_def
          post_plain_def request0_def)
qed

subsection \<open>Creation: the declared length\<close>

text \<open>
  C6 (the code at the failing input). A POST with \<open>Upload-Length: -5\<close> is answered 201
  and leaves an upload record whose size is \<open>-5\<close>; the claim says it is rejected with 400.
\<close>

theorem C6_negative_length_accepted:
  "upload_length post_negative = Some ''-5''
   \<and> response_status (fst (tus_create cfg0 env0 server0 post_negative)) = Some 201
   \<and> map_option upload_size
        (get_upload (snd (tus_create cfg0 env0 server0 post_negative)) (fresh_id env0))
      = Some (- 5)"
proof -
  let ?md = "\<lparr> md_filename = ''upload_'' @ take 8 (fresh_name env0),
              md_filetype = None, md_checksum = None,
              md_retention = None, md_retention_ttl = None \<rparr>"
  let ?u = "new_upload cfg0 env0 post_negative (- 5) ?md"
  have "tus_create cfg0 env0 server0 post_negative
      = store_new_upload env0 server0 post_negative ?u"
    using post_negative_checks cfg0_unlimited by (intro create_accepts parse_metadata_absent) simp_all
  then have "tus_create cfg0 env0 server0 post_negative
      = (Inr (created_response post_negative ?u), create_upload server0 ?u)"
    using post_negative_checks by (simp add: store_new_upload_plain)
  then show ?thesis
    using get_upload_create_upload [of server0 ?u] new_upload_fields [of cfg0 env0 post_negative "- 5" ?md]
    by (simp add: response_status_def created_response_def post_negative_def request0_def)
qed

subsection \<open>Creation with upload: the first chunk\<close>

text \<open>
  The PATCH handler guards the bound: it accepts a chunk only if the chunk fits in what is
  left of the declared size.
\<close>

lemma patch_accepts_only_fitting_chunk:
  assumes "get_upload s fid = Some u"
      and "response_status (fst (tus_patch cfg e s fid req)) = Some 204"
  shows "offset u + int (length (body req)) \<le> upload_size u"
  using assms
  by (auto simp: tus_patch_def response_status_def invalid_version_def validate_tus_version_def
           quota_response_def
           split: option.splits prod.splits bool.splits if_splits exn.splits)

text \<open>
  C1 (the code at the failing input). A POST that declares \<open>Upload-Length: 1\<close> and
  carries a body of five bytes under the content type of a chunk is answered 201 and
  leaves an upload record with \<open>offset = 5\<close> and \<open>size = 1\<close>; the claim says that
  \<open>offset\<close> never exceeds \<open>size\<close>, the first chunk of a creation with upload included.
  The creation handler writes the body without the comparison that the PATCH handler makes.
\<close>

theorem C1_initial_chunk_exceeds_size:
  "upload_length post_overlong = Some ''1'' \<and> length (body post_overlong) = 5
   \<and> response_status (fst (tus_create cfg0 env0 server0 post_overlong)) = Some 201
   \<and> map_option (\<lambda>u. (upload_size u, offset u))
        (get_upload (snd (tus_create cfg0 env0 server0 post_overlong)) (fresh_id env0))
      = Some (1, 5)"
proof -
  let ?md = "\<lparr> md_filename = ''upload_'' @ take 8 (fresh_name env0),
              md_filetype = None, md_checksum = None,
              md_retention = None, md_retention_ttl = None \<rparr>"
  let ?u = "new_upload cfg0 env0 post_overlong 1 ?md"
  have tc: "tus_create cfg0 env0 server0 post_overlong
      = store_new_upload env0 server0 post_overlong ?u"
    using post_overlong_checks cfg0_unlimited by (intro create_accepts parse_metadata_absent) simp_all
  have a: "upload_length post_overlong = Some ''1'' \<and> length (body post_overlong) = 5"
    by (simp add: post_overlong_def request0_def)
  have "body post_overlong \<noteq> []" using post_overlong_checks by simp
  moreover have "content_type post_overlong = Some CONTENT_TYPE_OFFSET"
    using post_overlong_checks by simp
  moreover have "kv server0 (lock_key (file_id ?u)) = None" by (simp add: server0_def)
  moreover have "io env0 = NoFault" by (simp add: env0_def)
  ultimately have b:
    "fst (store_new_upload env0 server0 post_overlong ?u)
       = Inr (created_response post_overlong
                (?u\<lparr>offset := int (length (body post_overlong)), updated_at := now env0\<rparr>))
     \<and> get_upload (snd (store_new_upload env0 server0 post_overlong ?u)) (file_id ?u)
       = Some (?u\<lparr>offset := int (length (body post_overlong)), updated_at := now env0\<rparr>)"
    by (rule store_new_upload_with_body)
  show ?thesis
    using a b new_upload_fields [of cfg0 env0 post_overlong 1 ?md]
    by (simp add: tc response_status_def created_response_def)
qed

subsection \<open>Parsing \<open>Upload-Metadata\<close>\<close>












subsection \<open>The lock of \<open>write_chunk\<close>\<close>

lemma acquire_lock_fails:
  "\<not> fst (acquire_lock s fid) \<Longrightarrow> snd (acquire_lock s fid) = s"
  by (simp add: acquire_lock_def state_set_def split: if_splits)

lemma acquire_lock_holds:
  "fst (acquire_lock s fid) \<Longrightarrow> kv (snd (acquire_lock s fid)) (lock_key fid) = Some VLock"
  by (simp add: acquire_lock_def state_set_def split: if_splits)

lemma write_locked_releases:
  "kv (snd (write_locked e s fid d off)) (lock_key fid) = None"
  by (simp add: write_locked_def release_lock_def state_delete_def
           split: option.splits io_fault.splits)

lemma write_locked_not_runtime:
  "fst (write_locked e s fid d off) \<noteq> Inl (RuntimeError m)"
  by (simp add: write_locked_def split: option.splits io_fault.splits)

text \<open>
  C9. Whenever \<open>write_chunk\<close> acquires the lock, at the first try or at the second one
  after the sleep, the lock key is absent from the state backend when the call is over,
  whether the file operation succeeds or raises (the file is missing, it cannot be opened,
  the seek or the write fails); the call then does not end with the error of a lock that
  could not be acquired.
\<close>

theorem C9_write_chunk_releases_lock:
  assumes "fst (acquire_lock s fid) \<or> fst (acquire_lock (sleep e s) fid)"
  shows "kv (snd (write_chunk e s fid d off)) (lock_key fid) = None
       \<and> fst (write_chunk e s fid d off) \<noteq> Inl (RuntimeError ''Could not acquire lock for write'')"
proof (cases "fst (acquire_lock s fid)")
  case True
  then have "write_chunk e s fid d off = write_locked e (snd (acquire_lock s fid)) fid d off"
    by (cases "acquire_lock s fid") (auto simp: write_chunk_def)
  then show ?thesis
    by (simp add: write_locked_releases write_locked_not_runtime)
next
  case False
  with assms have second: "fst (acquire_lock (sleep e s) fid)" by simp
  from False have "snd (acquire_lock s fid) = s" by (rule acquire_lock_fails)
  with False second
  have "write_chunk e s fid d off
      = write_locked e (snd (acquire_lock (sleep e s) fid)) fid d off"
    by (cases "acquire_lock s fid"; cases "acquire_lock (sleep e s) fid")
       (auto simp: write_chunk_def)
  then show ?thesis
    by (simp add: write_locked_releases write_locked_not_runtime)
qed

theorem C9_write_chunk_releases_lock_witness:
  "fst (acquire_lock server0 ''f1'')
   \<and> fst (write_chunk env0 server0 ''f1'' [1, 2] 0) = Inl FileNotFoundError
   \<and> kv (snd (write_chunk env0 server0 ''f1'' [1, 2] 0)) (lock_key ''f1'') = None"
proof -
  have a: "fst (acquire_lock server0 ''f1'')"
    by (simp add: acquire_lock_def state_set_def server0_def)
  have b: "fst (write_chunk env0 server0 ''f1'' [1, 2] 0) = Inl FileNotFoundError"
    by (simp add: write_chunk_def acquire_lock_def state_set_def server0_def write_locked_def)
  show ?thesis
    using C9_write_chunk_releases_lock [of server0 "''f1''" env0 "[1, 2]" 0] a b by simp
qed

subsection \<open>Integers as header text\<close>

declare nat_digits.simps [simp del]

lemma digit_char: "n < 10 \<Longrightarrow> is_digit (char_of (48 + n)) \<and> digit_val (char_of (48 + n)) = int n"
  by (simp add: is_digit_def digit_val_def)

lemma nat_digits_all_digits: "\<forall>c \<in> set (nat_digits n). is_digit c"
proof (induction n rule: nat_digits.induct)
  case (1 n)
  show ?case
  proof (cases "n < 10")
    case True
    then show ?thesis by (subst nat_digits.simps) (simp add: digit_char)
  next
    case False
    then have "n mod 10 < 10" by simp
    with False 1 show ?thesis
      by (subst nat_digits.simps) (simp add: digit_char)
  qed
qed

lemma nat_digits_nonempty: "nat_digits n \<noteq> []"
  by (subst nat_digits.simps) simp

lemma digit_not_special:
  "is_digit c \<Longrightarrow> c \<noteq> CHR ''_'' \<and> c \<noteq> CHR ''-'' \<and> c \<noteq> CHR ''+'' \<and> c \<noteq> CHR ''b''
                   \<and> \<not> is_space c \<and> \<not> is_int_space c"
  by (auto simp: is_digit_def is_space_def is_int_space_def)

lemma valid_digits_all:
  "s \<noteq> [] \<Longrightarrow> \<forall>c \<in> set s. is_digit c \<Longrightarrow> valid_digits s"
  by (induction s rule: valid_digits.induct) (auto simp: digit_not_special)

lemma digits_value_snoc:
  "is_digit c \<Longrightarrow> digits_value (s @ [c]) = 10 * digits_value s + digit_val c"
  by (simp add: digits_value_def)

lemma digits_value_nat_digits: "digits_value (nat_digits n) = int n"
proof (induction n rule: nat_digits.induct)
  case (1 n)
  show ?case
  proof (cases "n < 10")
    case True
    then show ?thesis
      by (subst nat_digits.simps) (simp add: digits_value_def digit_char)
  next
    case False
    have "n mod 10 < 10" by simp
    then have d: "is_digit (char_of (48 + n mod 10))
                \<and> digit_val (char_of (48 + n mod 10)) = int (n mod 10)"
      by (rule digit_char)
    have "digits_value (nat_digits n)
        = digits_value (nat_digits (n div 10) @ [char_of (48 + n mod 10)])"
      using False by (subst nat_digits.simps) simp
    also have "\<dots> = 10 * int (n div 10) + int (n mod 10)"
      using d 1 False by (simp add: digits_value_snoc)
    also have "\<dots> = int n" by presburger
    finally show ?thesis .
  qed
qed

lemma int_strip_no_space: "\<forall>c \<in> set s. \<not> is_int_space c \<Longrightarrow> int_strip s = s"
proof -
  assume a: "\<forall>c \<in> set s. \<not> is_int_space c"
  have "dropWhile is_int_space s = s"
    using a by (cases s) auto
  moreover have "dropWhile is_int_space (rev s) = rev s"
    using a by (cases "rev s") (auto simp del: rev_is_Nil_conv dest!: arg_cong [where f = set])
  ultimately show ?thesis by (simp add: int_strip_def)
qed

lemma py_int_nat_digits: "py_int (nat_digits n) = Some (int n)"
proof -
  let ?s = "nat_digits n"
  have dig: "\<forall>c \<in> set ?s. is_digit c" by (rule nat_digits_all_digits)
  then have st: "int_strip ?s = ?s" by (intro int_strip_no_space) (simp add: digit_not_special)
  obtain c r where cr: "?s = c # r" using nat_digits_nonempty [of n] by (cases ?s) auto
  with dig have "is_digit c" by simp
  then have "c \<noteq> CHR ''-'' \<and> c \<noteq> CHR ''+''" by (simp add: digit_not_special)
  moreover have "parse_digits ?s = Some (int n)"
    using dig nat_digits_nonempty [of n]
    by (simp add: parse_digits_def valid_digits_all digits_value_nat_digits)
  ultimately show ?thesis
    using st cr by (simp add: py_int_def)
qed

lemma py_int_str_int: "0 \<le> n \<Longrightarrow> py_int (str_int n) = Some n"
  by (simp add: str_int_def py_int_nat_digits)

lemma split_on_absent: "c \<notin> set s \<Longrightarrow> split_on c s = [s]"
  by (induction s) auto

lemma remove_all_absent: "CHR ''b'' \<notin> set s \<Longrightarrow> remove_all ''bytes='' s = s"
  by (induction s) auto

lemma parse_range_from_zero:
  assumes "0 \<le> n"
  shows "parse_range (''bytes=0-'' @ str_int n) avail = Some (0, min n (avail - 1))"
proof -
  let ?d = "str_int n"
  have sd: "?d = nat_digits (nat n)" using assms by (simp add: str_int_def)
  have dig: "\<forall>c \<in> set ?d. is_digit c" unfolding sd by (rule nat_digits_all_digits)
  then have nb: "CHR ''b'' \<notin> set ?d" and nm: "CHR ''-'' \<notin> set ?d"
    using digit_not_special by blast+
  have ne: "?d \<noteq> []" unfolding sd by (rule nat_digits_nonempty)
  have r: "remove_all ''bytes='' (''bytes=0-'' @ ?d) = ''0-'' @ ?d"
    using nb by (simp add: remove_all_absent)
  have sp: "split_on CHR ''-'' (''0-'' @ ?d) = [''0'', ?d]"
    using nm by (simp add: split_on_absent)
  have z: "py_int ''0'' = Some 0" by code_simp
  have pn: "py_int ?d = Some n" using assms by (rule py_int_str_int)
  show ?thesis
    unfolding parse_range_def r
    using sp z pn ne by (simp add: Let_def)
qed

subsection \<open>Download: the status of a range request\<close>

lemma download_range_from_zero:
  assumes "0 \<le> n"
  shows "response_status (fst (download_response info (Some (''bytes=0-'' @ str_int n))))
           = Some (if 0 < fi_available_size info then 206 else 416)
       \<and> (0 < fi_available_size info \<and> fi_available_size info - 1 \<le> n
           \<longrightarrow> snd (download_response info (Some (''bytes=0-'' @ str_int n))))"
proof -
  define h where "h = ''bytes=0-'' @ str_int n"
  have pr: "parse_range h (fi_available_size info) = Some (0, min n (fi_available_size info - 1))"
    unfolding h_def using assms by (rule parse_range_from_zero)
  have ne: "h \<noteq> []" by (simp add: h_def)
  show ?thesis
    unfolding h_def [symmetric] using pr ne assms
    by (auto simp: download_response_def truthy_def Let_def response_status_def)
qed

lemma download_without_range:
  "response_status (fst (download_response info None))
     = Some (if fi_available_size info < fi_size info then 206 else 200)"
  by (simp add: download_response_def truthy_def Let_def response_status_def)

lemma server_complete_info: "get_file_info server_complete ''f1'' = Inr (Some info_complete)"
  by (simp add: get_file_info_def state_get_def server_complete_def)

lemma str_int_9: "str_int 9 = ''9''"
  by code_simp

text \<open>
  C8 (as amended). A download request with the header
  \<open>Range: bytes=0-<n-1>\<close>, for any \<open>n\<close> of at least one (the size of the file
  included), returns 206 whether the file is partial or complete, as long as at least one
  byte is available, and 416 when none is; when the range reaches the last available byte
  the request counts as a full download. Status 200 is returned only to a request without
  a \<open>Range\<close> header, on a file whose available size is not below its size.
\<close>

theorem C8_range_from_zero_status:
  assumes "1 \<le> n"
  shows "(0 < fi_available_size info
            \<longrightarrow> response_status
                  (fst (download_response info (Some (''bytes=0-'' @ str_int (n - 1))))) = Some 206)
       \<and> (fi_available_size info \<le> 0
            \<longrightarrow> response_status
                  (fst (download_response info (Some (''bytes=0-'' @ str_int (n - 1))))) = Some 416)
       \<and> (0 < fi_available_size info \<and> fi_available_size info \<le> n
            \<longrightarrow> snd (download_response info (Some (''bytes=0-'' @ str_int (n - 1)))))
       \<and> response_status (fst (download_response info None))
            = Some (if fi_available_size info < fi_size info then 206 else 200)"
  using assms download_range_from_zero [of "n - 1" info] download_without_range [of info]
  by auto

theorem C8_range_from_zero_status_witness:
  "(1::int) \<le> 10 \<and> 0 < fi_available_size info_complete
   \<and> response_status
        (fst (download_response info_complete (Some (''bytes=0-'' @ str_int (10 - 1))))) = Some 206
   \<and> response_status (fst (download_response info_complete None)) = Some 200"
  using C8_range_from_zero_status [of 10 info_complete]
  by (simp add: info_complete_def)

text \<open>
  The claim as stated fails on a complete file: for a completed file of ten bytes the
  request with \<open>Range: bytes=0-9\<close> is answered 206, not 200.
\<close>

theorem C8_counterexample:
  "fi_is_complete info_complete \<and> fi_size info_complete = 10
   \<and> response_status (fst (download_file server_complete ''f1'' (Some ''bytes=0-9''))) = Some 206"
proof -
  have "response_status (fst (download_response info_complete (Some (''bytes=0-'' @ str_int 9))))
      = Some 206"
    using download_range_from_zero [of 9 info_complete] by (simp add: info_complete_def)
  then have "response_status (fst (download_response info_complete (Some ''bytes=0-9''))) = Some 206"
    by (simp add: str_int_9)
  then show ?thesis
    by (simp add: download_file_def server_complete_info) (simp add: info_complete_def)
qed

subsection \<open>PATCH: the checksum\<close>

lemma patch_after_quota:
  assumes "reaches_quota e s fid req u"
  shows "tus_patch cfg e s fid req
       = (case check_quota cfg s (int (length (body req))) of
            (False, usage) \<Rightarrow> (Inr (quota_response u usage), s)
          | (True, usage) \<Rightarrow>
              if upload_size u < offset u + int (length (body req))
              then (Inl (HTTPException 400 ''Chunk exceeds upload size''), s)
              else (case validate_checksum cfg req (body req) of
                      Some x \<Rightarrow> (Inl x, s)
                    | None \<Rightarrow> patch_write e s fid u (offset u) (body req)))"
  using assms by (simp add: reaches_quota_def tus_patch_def)

lemma split_once_at_space:
  "CHR '' '' \<notin> set a \<Longrightarrow> split_once CHR '' '' (a @ '' '' @ b) = [a, b]"
  by (simp add: split_once_def takeWhile_append dropWhile_append)

lemma validate_checksum_cases:
  assumes "upload_checksum req = Some (algo @ '' '' @ expected)" and "CHR '' '' \<notin> set algo"
  shows "validate_checksum cfg req chunk_data
       = (if lower algo = ''sha256''
          then (if sha256_hex (codec cfg) chunk_data \<noteq> expected
                then Some (HTTPException 460 ''Checksum mismatch'') else None)
          else if lower algo = ''sha1''
          then (if sha1_hex (codec cfg) chunk_data \<noteq> expected
                then Some (HTTPException 460 ''Checksum mismatch'') else None)
          else if lower algo = ''md5''
          then (if md5_hex (codec cfg) chunk_data \<noteq> expected
                then Some (HTTPException 460 ''Checksum mismatch'') else None)
          else Some (HTTPException 400 (''Unsupported checksum algorithm: '' @ algo)))"
proof -
  have t: "truthy (upload_checksum req)" using assms(1) by (simp add: truthy_def)
  have sp: "split_once CHR '' '' (the (upload_checksum req)) = [algo, expected]"
    using assms split_once_at_space [of algo expected] by simp
  show ?thesis
    unfolding validate_checksum_def using t sp by simp
qed

lemma patch_checksum_error_keeps_state:
  assumes "validate_checksum cfg req (body req) = Some x"
  shows "snd (tus_patch cfg e s fid req) = s
       \<or> snd (tus_patch cfg e s fid req) = delete_upload s fid
          \<and> fst (tus_patch cfg e s fid req) = Inl (HTTPException 410 ''Upload has expired'')"
  using assms
  by (auto simp: tus_patch_def split: option.splits prod.splits bool.splits)

lemma patch_first_reaches: "reaches_quota env0 server_open ''f1'' patch_first upload_open"
proof -
  have "validate_tus_version patch_first = None" by code_simp
  moreover have "content_type patch_first = Some CONTENT_TYPE_OFFSET" by code_simp
  moreover have "get_upload server_open ''f1'' = Some upload_open"
    by (simp add: get_upload_def state_get_def server_open_def)
  moreover have "\<not> expired env0 upload_open"
    by (simp add: expired_def upload_open_def env0_def)
  moreover have "truthy (upload_offset patch_first)
     \<and> py_int (the (upload_offset patch_first)) = Some (offset upload_open)
     \<and> body patch_first \<noteq> []" by code_simp
  ultimately show ?thesis by (simp add: reaches_quota_def)
qed

lemma patch_bad_digest_reaches:
  "reaches_quota env0 server_open ''f1'' patch_bad_digest upload_open"
  using patch_first_reaches
  by (simp add: reaches_quota_def patch_bad_digest_def validate_tus_version_def)

lemma server_open_quota: "fst (check_quota cfg0 server_open n)"
  by (simp add: check_quota_def cfg0_def int_truthy_def Let_def)

text \<open>
  C7. For a header \<open>Upload-Checksum: <algo> <hex>\<close> the tag is compared in lower case
  with \<open>sha256\<close>, \<open>sha1\<close> and \<open>md5\<close>: a digest that differs from \<open><hex>\<close> raises
  460, an unknown tag raises 400, a matching digest raises nothing. A PATCH that reaches
  the checksum (it passes the checks before it, quota admission and the size check
  included) returns that error and leaves the server state, the record and the file on
  disk, as it was. Whatever the other headers are, a PATCH whose checksum is refused
  never writes: the state is unchanged, or the upload had expired and was removed (410).
\<close>

theorem C7_checksum_validation:
  "(upload_checksum req = Some (algo @ '' '' @ expected) \<and> CHR '' '' \<notin> set algo
      \<longrightarrow> validate_checksum cfg req (body req)
          = (if lower algo = ''sha256''
             then (if sha256_hex (codec cfg) (body req) \<noteq> expected
                   then Some (HTTPException 460 ''Checksum mismatch'') else None)
             else if lower algo = ''sha1''
             then (if sha1_hex (codec cfg) (body req) \<noteq> expected
                   then Some (HTTPException 460 ''Checksum mismatch'') else None)
             else if lower algo = ''md5''
             then (if md5_hex (codec cfg) (body req) \<noteq> expected
                   then Some (HTTPException 460 ''Checksum mismatch'') else None)
             else Some (HTTPException 400 (''Unsupported checksum algorithm: '' @ algo))))
   \<and> (reaches_quota e s fid req u
       \<and> fst (check_quota cfg s (int (length (body req))))
       \<and> offset u + int (length (body req)) \<le> upload_size u
       \<and> validate_checksum cfg req (body req) = Some x
      \<longrightarrow> tus_patch cfg e s fid req = (Inl x, s))
   \<and> (validate_checksum cfg req (body req) = Some x
      \<longrightarrow> snd (tus_patch cfg e s fid req) = s
          \<or> snd (tus_patch cfg e s fid req) = delete_upload s fid
             \<and> fst (tus_patch cfg e s fid req) = Inl (HTTPException 410 ''Upload has expired''))"
proof (intro conjI impI)
  assume "upload_checksum req = Some (algo @ '' '' @ expected) \<and> CHR '' '' \<notin> set algo"
  then show "validate_checksum cfg req (body req)
          = (if lower algo = ''sha256''
             then (if sha256_hex (codec cfg) (body req) \<noteq> expected
                   then Some (HTTPException 460 ''Checksum mismatch'') else None)
             else if lower algo = ''sha1''
             then (if sha1_hex (codec cfg) (body req) \<noteq> expected
                   then Some (HTTPException 460 ''Checksum mismatch'') else None)
             else if lower algo = ''md5''
             then (if md5_hex (codec cfg) (body req) \<noteq> expected
                   then Some (HTTPException 460 ''Checksum mismatch'') else None)
             else Some (HTTPException 400 (''Unsupported checksum algorithm: '' @ algo)))"
    using validate_checksum_cases [of req algo expected cfg "body req"] by blast
next
  assume a: "reaches_quota e s fid req u
       \<and> fst (check_quota cfg s (int (length (body req))))
       \<and> offset u + int (length (body req)) \<le> upload_size u
       \<and> validate_checksum cfg req (body req) = Some x"
  then have "tus_patch cfg e s fid req
       = (case check_quota cfg s (int (length (body req))) of
            (False, usage) \<Rightarrow> (Inr (quota_response u usage), s)
          | (True, usage) \<Rightarrow>
              if upload_size u < offset u + int (length (body req))
              then (Inl (HTTPException 400 ''Chunk exceeds upload size''), s)
              else (case validate_checksum cfg req (body req) of
                      Some x \<Rightarrow> (Inl x, s)
                    | None \<Rightarrow> patch_write e s fid u (offset u) (body req)))"
    by (intro patch_after_quota) simp
  with a show "tus_patch cfg e s fid req = (Inl x, s)"
    by (cases "check_quota cfg s (int (length (body req)))") auto
next
  assume "validate_checksum cfg req (body req) = Some x"
  then show "snd (tus_patch cfg e s fid req) = s
          \<or> snd (tus_patch cfg e s fid req) = delete_upload s fid
             \<and> fst (tus_patch cfg e s fid req) = Inl (HTTPException 410 ''Upload has expired'')"
    by (rule patch_checksum_error_keeps_state)
qed

theorem C7_checksum_validation_witness:
  "upload_checksum patch_bad_digest = Some (''SHA256'' @ '' '' @ ''ff'')
   \<and> CHR '' '' \<notin> set ''SHA256'' \<and> lower ''SHA256'' = ''sha256''
   \<and> sha256_hex (codec cfg0) (body patch_bad_digest) \<noteq> ''ff''
   \<and> reaches_quota env0 server_open ''f1'' patch_bad_digest upload_open
   \<and> fst (check_quota cfg0 server_open (int (length (body patch_bad_digest))))
   \<and> offset upload_open + int (length (body patch_bad_digest)) \<le> upload_size upload_open
   \<and> tus_patch cfg0 env0 server_open ''f1'' patch_bad_digest
       = (Inl (HTTPException 460 ''Checksum mismatch''), server_open)"
proof -
  have h1: "upload_checksum patch_bad_digest = Some (''SHA256'' @ '' '' @ ''ff'')"
    by (simp add: patch_bad_digest_def)
  have h2: "CHR '' '' \<notin> set ''SHA256'' \<and> lower ''SHA256'' = ''sha256''" by code_simp
  have h3: "sha256_hex (codec cfg0) (body patch_bad_digest) \<noteq> ''ff''"
    by (simp add: cfg0_def codec0_def)
  have h4: "offset upload_open + int (length (body patch_bad_digest)) \<le> upload_size upload_open"
    by (simp add: upload_open_def patch_bad_digest_def patch_first_def)
  note t = C7_checksum_validation
    [of patch_bad_digest "''SHA256''" "''ff''" cfg0 env0 server_open "''f1''" upload_open
        "HTTPException 460 ''Checksum mismatch''"]
  from t h1 h2 h3
  have v: "validate_checksum cfg0 patch_bad_digest (body patch_bad_digest)
         = Some (HTTPException 460 ''Checksum mismatch'')"
    by simp
  show ?thesis
    using t v h1 h2 h3 h4 patch_bad_digest_reaches server_open_quota by blast
qed

subsection \<open>PATCH: the write and the finalization\<close>

text \<open>
  \<open>finalize_upload\<close> never returns. On a complete upload it renames the file and then
  raises, leaving the keys of the state backend as they were.
\<close>

lemma finalize_upload_raises:
  "fst (finalize_upload e s fid) \<noteq> Inr ()"
  by (simp add: finalize_upload_def Let_def split: option.splits)

lemma finalize_upload_complete:
  assumes "get_upload s fid = Some u" and "is_complete u"
  shows "fst (finalize_upload e s fid) = Inl no_owner_id
       \<and> kv (snd (finalize_upload e s fid)) = kv s"
  using assms by (simp add: finalize_upload_def Let_def split: option.splits)

lemma finalize_upload_not_http:
  "finalize_upload e s fid = (Inl x, s') \<Longrightarrow> x \<noteq> HTTPException c m"
  by (auto simp: finalize_upload_def Let_def no_owner_id_def split: option.splits if_splits)

text \<open>
  A chunk that leaves the upload incomplete is written and answered 204.
\<close>

lemma patch_write_ok:
  assumes "file_id u = fid" and "\<not> is_final u"
      and "kv s (lock_key fid) = None"
      and "map_of (uploads_dir s) (get_file_path fid) = Some old"
      and "io e = NoFault" and "old = [] \<or> 0 \<le> off"
      and "off + int (length d) < upload_size u"
  shows "response_status (fst (patch_write e s fid u off d)) = Some 204
       \<and> get_upload (snd (patch_write e s fid u off d)) fid
           = Some (u\<lparr>offset := off + int (length d), updated_at := now e\<rparr>)"
proof -
  let ?s1 = "s\<lparr>uploads_dir := AList.update (get_file_path fid) (write_at old d (nat off)) (uploads_dir s)\<rparr>"
  let ?new = "off + int (length d)"
  let ?u1 = "u\<lparr>offset := ?new, updated_at := now e\<rparr>"
  have w: "write_chunk e s fid d off = (Inr (int (length d)), ?s1)"
    using assms(3-6) by (rule write_chunk_ok)
  have "patch_write e s fid u off d
      = (Inr \<lparr> status_code = 204,
               headers = get_tus_headers @ [(''Upload-Offset'', str_int ?new)] @ expires_header ?u1,
               content = [] \<rparr>,
         update_upload e ?s1 ?u1)"
    using w assms(2,7) by (simp add: patch_write_def Let_def)
  moreover have "get_upload (update_upload e ?s1 ?u1) fid = Some (?u1\<lparr>updated_at := now e\<rparr>)"
    using get_upload_update_upload [of e ?s1 ?u1] assms(1) by simp
  ultimately show ?thesis
    by (simp add: response_status_def)
qed

text \<open>
  The chunk that completes the upload is written, the record is stored with the new
  offset and \<open>is_final\<close>, and then \<open>finalize_upload\<close> raises: the handler ends with that
  exception, and no completed-file record is written.
\<close>

lemma patch_write_completing:
  assumes "file_id u = fid"
      and "kv s (lock_key fid) = None"
      and "map_of (uploads_dir s) (get_file_path fid) = Some old"
      and "io e = NoFault" and "old = [] \<or> 0 \<le> off"
      and "upload_size u \<le> off + int (length d)"
  shows "fst (patch_write e s fid u off d) = Inl no_owner_id
       \<and> get_upload (snd (patch_write e s fid u off d)) fid
           = Some (u\<lparr>offset := off + int (length d), updated_at := now e, is_final := True\<rparr>)
       \<and> state_get (snd (patch_write e s fid u off d)) (file_key fid)
           = state_get s (file_key fid)"
proof -
  let ?s1 = "s\<lparr>uploads_dir := AList.update (get_file_path fid) (write_at old d (nat off)) (uploads_dir s)\<rparr>"
  let ?new = "off + int (length d)"
  let ?u2 = "u\<lparr>offset := ?new, updated_at := now e, is_final := True\<rparr>"
  let ?s2 = "update_upload e ?s1 ?u2"
  have w: "write_chunk e s fid d off = (Inr (int (length d)), ?s1)"
    using assms(2-5) by (rule write_chunk_ok)
  have g: "get_upload ?s2 fid = Some ?u2"
    using get_upload_update_upload [of e ?s1 ?u2] assms(1) by simp
  have c: "is_complete ?u2" using assms(6) by (simp add: is_complete_def)
  have f: "fst (finalize_upload e ?s2 fid) = Inl no_owner_id
         \<and> kv (snd (finalize_upload e ?s2 fid)) = kv ?s2"
    using g c by (rule finalize_upload_complete)
  obtain r s3 where fin: "finalize_upload e ?s2 fid = (r, s3)" by force
  with f have r: "r = Inl no_owner_id" and k: "kv s3 = kv ?s2" by simp_all
  have pw: "patch_write e s fid u off d = (Inl no_owner_id, s3)"
    using w assms(6) fin r by (simp add: patch_write_def Let_def)
  have "get_upload s3 fid = get_upload ?s2 fid"
    using k by (simp add: get_upload_def state_get_def)
  moreover have "state_get s3 (file_key fid) = state_get s (file_key fid)"
    using k assms(1)
    by (simp add: state_get_def update_upload_def state_set_def file_key_not_upload_key)
  ultimately show ?thesis
    using pw g by simp
qed

subsection \<open>PATCH on a finalized upload\<close>

lemma patch_never_404_when_found:
  assumes "get_upload s fid = Some u"
  shows "response_status (fst (tus_patch cfg e s fid req)) \<noteq> Some 404"
proof -
  have pw: "response_status (fst (patch_write e s fid u off d)) \<noteq> Some 404" for off d
  proof -
    have a: "x \<noteq> HTTPException c m" if "write_chunk e s fid d off = (Inl x, s')" for x s' c m
      using that by (rule write_chunk_not_http)
    have b: "x \<noteq> HTTPException c m" if "finalize_upload e s1 fid = (Inl x, s')" for x s' s1 c m
      using that by (rule finalize_upload_not_http)
    show ?thesis
      by (auto simp: patch_write_def Let_def response_status_def
               split: prod.splits sum.splits exn.splits dest: a b)
  qed
  show ?thesis
    using assms pw
    by (auto simp: tus_patch_def response_status_def invalid_version_def validate_tus_version_def
          quota_response_def validate_checksum_def
          split: option.splits prod.splits bool.splits if_splits list.splits)
qed

lemma patch_refused_when_complete:
  assumes "get_upload s fid = Some u" and "is_complete u"
  shows "response_status (fst (tus_patch cfg e s fid req)) \<noteq> Some 204
       \<and> (\<not> expired e u \<longrightarrow> snd (tus_patch cfg e s fid req) = s)
       \<and> (expired e u \<and> validate_tus_version req = None
            \<and> content_type req = Some CONTENT_TYPE_OFFSET
          \<longrightarrow> tus_patch cfg e s fid req
               = (Inl (HTTPException 410 ''Upload has expired''), delete_upload s fid))
       \<and> (reaches_quota e s fid req u \<and> fst (check_quota cfg s (int (length (body req))))
          \<longrightarrow> tus_patch cfg e s fid req
               = (Inl (HTTPException 400 ''Chunk exceeds upload size''), s))"
proof -
  have big: "upload_size u < offset u + int (length (body req))" if "body req \<noteq> []"
  proof -
    from that have "1 \<le> int (length (body req))" by (cases "body req") auto
    with assms(2) show ?thesis by (simp add: is_complete_def)
  qed
  show ?thesis
  using assms big
  by (auto simp: tus_patch_def response_status_def invalid_version_def validate_tus_version_def
        quota_response_def is_complete_def reaches_quota_def
        split: option.splits prod.splits bool.splits)
qed

lemma patch_first_written:
  "tus_patch cfg0 env0 server_open ''f1'' patch_first
     = patch_write env0 server_open ''f1'' upload_open 0 [1, 2, 3]"
proof -
  have c: "validate_checksum cfg0 patch_first (body patch_first) = None"
    by (simp add: validate_checksum_def patch_first_def request0_def truthy_def)
  have b: "body patch_first = [1, 2, 3]" by (simp add: patch_first_def)
  have o: "offset upload_open = 0 \<and> upload_size upload_open = 3" by (simp add: upload_open_def)
  obtain us where q: "check_quota cfg0 server_open (int (length (body patch_first))) = (True, us)"
    using server_open_quota [of "int (length (body patch_first))"]
    by (cases "check_quota cfg0 server_open (int (length (body patch_first)))") auto
  show ?thesis
    using patch_after_quota [OF patch_first_reaches, of cfg0] c q o
    by (simp add: b)
qed

text \<open>
  The PATCH that completes \<open>upload_open\<close> ends with the exception of \<open>finalize_upload\<close>.
  It leaves the record with offset 3 and \<open>is_final\<close>, under its old storage path, and no
  completed-file record.
\<close>

lemma server_final_facts:
  "fst (tus_patch cfg0 env0 server_open ''f1'' patch_first) = Inl no_owner_id
   \<and> get_upload server_final ''f1''
       = Some (upload_open\<lparr>offset := 3, updated_at := 1000, is_final := True\<rparr>)
   \<and> state_get server_final (file_key ''f1'') = None"
proof -
  have "file_id upload_open = ''f1'' \<and> upload_size upload_open \<le> 0 + int (length [1, 2, 3 :: 8 word])"
    by (simp add: upload_open_def)
  moreover have "kv server_open (lock_key ''f1'') = None"
    by (simp add: server_open_def lock_key_not_upload_key)
  moreover have "map_of (uploads_dir server_open) (get_file_path ''f1'') = Some []"
    by (simp add: server_open_def get_file_path_def)
  moreover have "io env0 = NoFault \<and> now env0 = 1000" by (simp add: env0_def)
  moreover have "state_get server_open (file_key ''f1'') = None"
    by (simp add: state_get_def server_open_def file_key_not_upload_key)
  ultimately show ?thesis
    using patch_write_completing [of upload_open "''f1''" server_open "[]" env0 0 "[1, 2, 3]"]
    by (simp add: server_final_def patch_first_written)
qed

lemma server_finalized_facts:
  "get_upload server_finalized ''f1'' = Some upload_finalized
   \<and> state_get server_finalized (file_key ''f1'') = Some (VFile info_finalized)"
  by (simp add: get_upload_def state_get_def server_finalized_def
        file_key_not_upload_key file_key_not_upload_key [symmetric])

lemma patch_again_checks:
  "validate_tus_version patch_again = None
   \<and> content_type patch_again = Some CONTENT_TYPE_OFFSET
   \<and> truthy (upload_offset patch_again)
   \<and> py_int (the (upload_offset patch_again)) = Some 3 \<and> body patch_again \<noteq> []"
  by code_simp

lemma patch_again_reaches:
  assumes "get_upload s ''f1'' = Some u" and "offset u = 3" and "expires_at u = Some 5000"
  shows "reaches_quota env0 s ''f1'' patch_again u"
proof -
  have "\<not> expired env0 u" using assms(3) by (simp add: expired_def env0_def)
  then show ?thesis using assms(1,2) patch_again_checks by (simp add: reaches_quota_def)
qed

lemma cfg0_quota: "fst (check_quota cfg0 s n)"
  by (simp add: check_quota_def cfg0_def int_truthy_def Let_def)

text \<open>
  C3 (as amended). An upload whose record is flagged \<open>is_final\<close> and is complete keeps
  that record under its upload key. A later PATCH to that \<open>file_id\<close> therefore finds the
  record and is never answered 404; it is never accepted (never 204) either. As long as the
  upload has not expired the PATCH leaves the state unchanged, and when it passes the
  checks up to quota admission it is refused with 400, the chunk exceeding the upload
  size; once \<open>expires_at\<close> has passed it is answered 410 and the upload is deleted.
\<close>

theorem C3_patch_on_final:
  assumes "final_state s fid u"
  shows "response_status (fst (tus_patch cfg e s fid req)) \<noteq> Some 404
       \<and> response_status (fst (tus_patch cfg e s fid req)) \<noteq> Some 204
       \<and> served_status (fst (tus_patch cfg e s fid req)) \<noteq> 404
       \<and> served_status (fst (tus_patch cfg e s fid req)) \<noteq> 204
       \<and> (\<not> expired e u \<longrightarrow> snd (tus_patch cfg e s fid req) = s)
       \<and> (expired e u \<and> validate_tus_version req = None
            \<and> content_type req = Some CONTENT_TYPE_OFFSET
          \<longrightarrow> tus_patch cfg e s fid req
               = (Inl (HTTPException 410 ''Upload has expired''), delete_upload s fid))
       \<and> (reaches_quota e s fid req u \<and> fst (check_quota cfg s (int (length (body req))))
          \<longrightarrow> tus_patch cfg e s fid req
               = (Inl (HTTPException 400 ''Chunk exceeds upload size''), s))"
proof -
  from assms have g: "get_upload s fid = Some u" and c: "is_complete u"
    by (simp_all add: final_state_def)
  from g have n: "response_status (fst (tus_patch cfg e s fid req)) \<noteq> Some 404"
    by (rule patch_never_404_when_found)
  note r = patch_refused_when_complete [OF g c, of cfg e req]
  from r have m: "response_status (fst (tus_patch cfg e s fid req)) \<noteq> Some 204" by blast
  from n m have "served_status (fst (tus_patch cfg e s fid req)) \<noteq> 404
       \<and> served_status (fst (tus_patch cfg e s fid req)) \<noteq> 204"
    by (auto simp: served_status_def split: option.splits)
  with n r show ?thesis by blast
qed

theorem C3_patch_on_final_witness:
  "final_state server_final ''f1'' (upload_open\<lparr>offset := 3, updated_at := 1000, is_final := True\<rparr>)
   \<and> response_status (fst (tus_patch cfg0 env0 server_final ''f1'' patch_again)) \<noteq> Some 404
   \<and> tus_patch cfg0 env0 server_final ''f1'' patch_again
       = (Inl (HTTPException 400 ''Chunk exceeds upload size''), server_final)"
proof -
  let ?u = "upload_open\<lparr>offset := 3, updated_at := 1000, is_final := True\<rparr>"
  from server_final_facts have g: "get_upload server_final ''f1'' = Some ?u" by simp
  then have f: "final_state server_final ''f1'' ?u"
    by (simp add: final_state_def is_complete_def upload_open_def)
  have r: "reaches_quota env0 server_final ''f1'' patch_again ?u"
    using g by (rule patch_again_reaches) (simp_all add: upload_open_def)
  show ?thesis
    using C3_patch_on_final [OF f, of cfg0 env0 patch_again] f r
      cfg0_quota [of server_final "int (length (body patch_again))"]
    by blast
qed

text \<open>
  The claim as stated fails on a final upload. After the PATCH that completes an upload of
  three bytes, the record is flagged \<open>is_final\<close>, and the next PATCH, at offset 3, is
  answered 400, not 404. The same holds in the state that has the completed-file record
  beside the final upload record.
\<close>

theorem C3_counterexample:
  "map_option is_final (get_upload server_final ''f1'') = Some True
   \<and> response_status (fst (tus_patch cfg0 env0 server_final ''f1'' patch_again)) = Some 400
   \<and> map_option is_final (get_upload server_finalized ''f1'') = Some True
   \<and> state_get server_finalized (file_key ''f1'') = Some (VFile info_finalized)
   \<and> response_status (fst (tus_patch cfg0 env0 server_finalized ''f1'' patch_again)) = Some 400"
proof -
  let ?u = "upload_open\<lparr>offset := 3, updated_at := 1000, is_final := True\<rparr>"
  from server_final_facts have g: "get_upload server_final ''f1'' = Some ?u" by simp
  have r: "reaches_quota env0 server_final ''f1'' patch_again ?u"
    using g by (rule patch_again_reaches) (simp_all add: upload_open_def)
  have c: "is_complete ?u" by (simp add: is_complete_def upload_open_def)
  have t: "tus_patch cfg0 env0 server_final ''f1'' patch_again
      = (Inl (HTTPException 400 ''Chunk exceeds upload size''), server_final)"
    using patch_refused_when_complete [OF g c, of cfg0 env0 patch_again] r
      cfg0_quota [of server_final "int (length (body patch_again))"]
    by blast
  from server_finalized_facts
  have g': "get_upload server_finalized ''f1'' = Some upload_finalized" by simp
  have r': "reaches_quota env0 server_finalized ''f1'' patch_again upload_finalized"
    using g' by (rule patch_again_reaches) (simp_all add: upload_finalized_def upload_open_def)
  have c': "is_complete upload_finalized"
    by (simp add: is_complete_def upload_finalized_def upload_open_def)
  have t': "tus_patch cfg0 env0 server_finalized ''f1'' patch_again
      = (Inl (HTTPException 400 ''Chunk exceeds upload size''), server_finalized)"
    using patch_refused_when_complete [OF g' c', of cfg0 env0 patch_again] r'
      cfg0_quota [of server_finalized "int (length (body patch_again))"]
    by blast
  have f: "is_final ?u \<and> is_final upload_finalized"
    by (simp add: upload_finalized_def)
  show ?thesis
    using g t g' t' f server_finalized_facts by (simp add: response_status_def)
qed

subsection \<open>PATCH: quota admission\<close>

lemma patch_quota_refused:
  assumes "reaches_quota e s fid req u"
      and "check_quota cfg s (int (length (body req))) = (False, usage)"
  shows "tus_patch cfg e s fid req = (Inr (quota_response u usage), s)"
  using patch_after_quota [OF assms(1), of cfg] assms(2) by simp

lemma quota_response_headers:
  "status_code (quota_response u usage) = 507
   \<and> map_of (headers (quota_response u usage)) ''Retry-After'' = Some ''10''
   \<and> map_of (headers (quota_response u usage)) ''Upload-Offset'' = Some (str_int (offset u))
   \<and> map_of (headers (quota_response u usage)) ''X-Storage-Used'' = Some (str_int (used usage))
   \<and> map_of (headers (quota_response u usage)) ''X-Storage-Max'' = Some (str_opt_int (max_bytes usage))
   \<and> map_of (headers (quota_response u usage)) ''X-Storage-Available''
        = Some (str_opt_int (available usage))"
  by (simp add: quota_response_def get_tus_headers_def)

lemma check_quota_usage:
  "snd (check_quota cfg s n) = get_storage_usage cfg s"
  by (simp add: check_quota_def Let_def)

lemma patch_accepted:
  assumes "reaches_quota e s fid req u"
      and "fst (check_quota cfg s (int (length (body req))))"
      and "offset u + int (length (body req)) < upload_size u"
      and "validate_checksum cfg req (body req) = None"
      and "file_id u = fid" and "\<not> is_final u" and "0 \<le> offset u"
      and "kv s (lock_key fid) = None"
      and "map_of (uploads_dir s) (get_file_path fid) \<noteq> None"
      and "io e = NoFault"
  shows "response_status (fst (tus_patch cfg e s fid req)) = Some 204
       \<and> map_option offset (get_upload (snd (tus_patch cfg e s fid req)) fid)
           = Some (offset u + int (length (body req)))"
proof -
  obtain usage where q: "check_quota cfg s (int (length (body req))) = (True, usage)"
    using assms(2) by (cases "check_quota cfg s (int (length (body req)))") auto
  have t: "tus_patch cfg e s fid req = patch_write e s fid u (offset u) (body req)"
    using patch_after_quota [OF assms(1), of cfg] q assms(3,4) by simp
  from assms(9) obtain old where o: "map_of (uploads_dir s) (get_file_path fid) = Some old"
    by auto
  have "old = [] \<or> 0 \<le> offset u" using assms(7) by simp
  then show ?thesis
    using patch_write_ok [OF assms(5,6,8) o assms(10) _ assms(3)]
    by (simp add: t)
qed

lemma server_full_upload: "get_upload server_full ''f1'' = get_upload server_open ''f1''"
  by (simp add: server_full_def get_upload_def state_get_def)

lemma patch_two_reaches:
  "reaches_quota env0 server_full ''f1'' patch_two upload_open
   \<and> reaches_quota env0 server_open ''f1'' patch_two upload_open"
  using patch_first_reaches
  by (simp add: reaches_quota_def server_full_upload patch_two_def validate_tus_version_def)

lemma patch_big_reaches:
  "reaches_quota env0 server_full ''f1'' patch_big upload_open
   \<and> reaches_quota env0 server_open ''f1'' patch_big upload_open"
  using patch_first_reaches
  by (simp add: reaches_quota_def server_full_upload patch_big_def validate_tus_version_def)

lemma server_full_used:
  "dir_size (uploads_dir server_full) + dir_size (files_dir server_full) = 9
   \<and> dir_size (uploads_dir server_open) + dir_size (files_dir server_open) = 0"
  by (simp add: server_full_def server_open_def dir_size_def)

lemma quota_full:
  "check_quota cfg_quota server_full n = (9 + n \<le> 10, get_storage_usage cfg_quota server_full)
   \<and> check_quota cfg_quota server_open n = (n \<le> 10, get_storage_usage cfg_quota server_open)"
  using server_full_used
  by (simp add: check_quota_def get_storage_usage_def Let_def cfg_quota_def int_truthy_def)

text \<open>
  C4 (as amended). When a PATCH reaches quota admission and is refused, the response is
  507 with \<open>Retry-After: 10\<close>, the \<open>Upload-Offset\<close> of the record, and the headers
  \<open>X-Storage-Used\<close>, \<open>X-Storage-Max\<close> and \<open>X-Storage-Available\<close>; the server state, the
  record and the files on disk, is unchanged. The same PATCH, retried in any later state
  in which the record is the same and quota admission allows it, is answered 204 and
  moves the offset by the length of the body, provided it also passes the two checks
  that come after quota admission (the chunk fits in the declared size, the checksum is
  absent or matches), the write goes through (the lock is free, the upload's file
  exists, no input-output fault) and the chunk leaves the upload incomplete. Nothing is
  said here of the chunk that completes the upload.
\<close>

theorem C4_quota_refusal:
  assumes "reaches_quota e s fid req u"
      and "check_quota cfg s (int (length (body req))) = (False, usage)"
  shows "tus_patch cfg e s fid req = (Inr (quota_response u usage), s)
       \<and> status_code (quota_response u usage) = 507
       \<and> map_of (headers (quota_response u usage)) ''Retry-After'' = Some ''10''
       \<and> map_of (headers (quota_response u usage)) ''Upload-Offset'' = Some (str_int (offset u))
       \<and> map_of (headers (quota_response u usage)) ''X-Storage-Used''
            = Some (str_int (dir_size (uploads_dir s) + dir_size (files_dir s)))
       \<and> map_of (headers (quota_response u usage)) ''X-Storage-Max''
            = Some (str_opt_int (max_storage_size cfg))
       \<and> map_of (headers (quota_response u usage)) ''X-Storage-Available''
            = Some (str_opt_int (available usage))
       \<and> (\<forall>e' s'. reaches_quota e' s' fid req u
                   \<and> fst (check_quota cfg s' (int (length (body req))))
                   \<and> offset u + int (length (body req)) < upload_size u
                   \<and> validate_checksum cfg req (body req) = None
                   \<and> file_id u = fid \<and> \<not> is_final u \<and> 0 \<le> offset u
                   \<and> kv s' (lock_key fid) = None
                   \<and> map_of (uploads_dir s') (get_file_path fid) \<noteq> None
                   \<and> io e' = NoFault
              \<longrightarrow> response_status (fst (tus_patch cfg e' s' fid req)) = Some 204
                  \<and> map_option offset (get_upload (snd (tus_patch cfg e' s' fid req)) fid)
                      = Some (offset u + int (length (body req))))"
proof -
  have u: "usage = get_storage_usage cfg s"
    using check_quota_usage [of cfg s "int (length (body req))"] assms(2) by simp
  have a: "tus_patch cfg e s fid req = (Inr (quota_response u usage), s)"
    using assms by (rule patch_quota_refused)
  have b: "used usage = dir_size (uploads_dir s) + dir_size (files_dir s)
         \<and> max_bytes usage = max_storage_size cfg"
    by (simp add: u get_storage_usage_def Let_def)
  have c: "response_status (fst (tus_patch cfg e' s' fid req)) = Some 204
         \<and> map_option offset (get_upload (snd (tus_patch cfg e' s' fid req)) fid)
             = Some (offset u + int (length (body req)))"
    if "reaches_quota e' s' fid req u
         \<and> fst (check_quota cfg s' (int (length (body req))))
         \<and> offset u + int (length (body req)) < upload_size u
         \<and> validate_checksum cfg req (body req) = None
         \<and> file_id u = fid \<and> \<not> is_final u \<and> 0 \<le> offset u
         \<and> kv s' (lock_key fid) = None
         \<and> map_of (uploads_dir s') (get_file_path fid) \<noteq> None
         \<and> io e' = NoFault" for e' s'
    using that by (intro patch_accepted) simp_all
  show ?thesis
    using a b c quota_response_headers [of u usage] by (simp del: not_None_eq)
qed

theorem C4_quota_refusal_witness:
  "reaches_quota env0 server_full ''f1'' patch_two upload_open
   \<and> check_quota cfg_quota server_full (int (length (body patch_two)))
       = (False, get_storage_usage cfg_quota server_full)
   \<and> tus_patch cfg_quota env0 server_full ''f1'' patch_two
       = (Inr (quota_response upload_open (get_storage_usage cfg_quota server_full)), server_full)
   \<and> reaches_quota env0 server_open ''f1'' patch_two upload_open
   \<and> fst (check_quota cfg_quota server_open (int (length (body patch_two))))
   \<and> response_status (fst (tus_patch cfg_quota env0 server_open ''f1'' patch_two)) = Some 204
   \<and> map_option offset (get_upload (snd (tus_patch cfg_quota env0 server_open ''f1'' patch_two)) ''f1'')
       = Some 2"
proof -
  have b: "int (length (body patch_two)) = 2" by (simp add: patch_two_def)
  have q1: "check_quota cfg_quota server_full (int (length (body patch_two)))
          = (False, get_storage_usage cfg_quota server_full)"
    using quota_full [of 2] by (simp add: b)
  have q2: "fst (check_quota cfg_quota server_open (int (length (body patch_two))))"
    using quota_full [of 2] by (simp add: b)
  have o: "offset upload_open + int (length (body patch_two)) < upload_size upload_open
         \<and> file_id upload_open = ''f1'' \<and> \<not> is_final upload_open \<and> 0 \<le> offset upload_open
         \<and> offset upload_open = 0"
    by (simp add: upload_open_def b)
  have c: "validate_checksum cfg_quota patch_two (body patch_two) = None"
    by (simp add: validate_checksum_def patch_two_def patch_first_def request0_def truthy_def)
  have l: "kv server_open (lock_key ''f1'') = None"
    by (simp add: server_open_def lock_key_not_upload_key)
  have f: "map_of (uploads_dir server_open) (get_file_path ''f1'') \<noteq> None"
    by (simp add: server_open_def get_file_path_def)
  have i: "io env0 = NoFault" by (simp add: env0_def)
  have r1: "reaches_quota env0 server_full ''f1'' patch_two upload_open"
    and r2: "reaches_quota env0 server_open ''f1'' patch_two upload_open"
    using patch_two_reaches by simp_all
  note t = C4_quota_refusal [OF r1 q1]
  from t have t1: "tus_patch cfg_quota env0 server_full ''f1'' patch_two
       = (Inr (quota_response upload_open (get_storage_usage cfg_quota server_full)), server_full)"
    by blast
  from t have "reaches_quota env0 server_open ''f1'' patch_two upload_open
                   \<and> fst (check_quota cfg_quota server_open (int (length (body patch_two))))
                   \<and> offset upload_open + int (length (body patch_two)) < upload_size upload_open
                   \<and> validate_checksum cfg_quota patch_two (body patch_two) = None
                   \<and> file_id upload_open = ''f1'' \<and> \<not> is_final upload_open \<and> 0 \<le> offset upload_open
                   \<and> kv server_open (lock_key ''f1'') = None
                   \<and> map_of (uploads_dir server_open) (get_file_path ''f1'') \<noteq> None
                   \<and> io env0 = NoFault
              \<longrightarrow> response_status (fst (tus_patch cfg_quota env0 server_open ''f1'' patch_two)) = Some 204
                  \<and> map_option offset (get_upload (snd (tus_patch cfg_quota env0 server_open ''f1'' patch_two)) ''f1'')
                      = Some (offset upload_open + int (length (body patch_two)))"
    by blast
  with r2 q2 o c l f i
  have t2: "response_status (fst (tus_patch cfg_quota env0 server_open ''f1'' patch_two)) = Some 204
     \<and> map_option offset (get_upload (snd (tus_patch cfg_quota env0 server_open ''f1'' patch_two)) ''f1'')
         = Some (offset upload_open + int (length (body patch_two)))"
    by blast
  show ?thesis
    using r1 r2 q1 q2 t1 t2 o b by simp
qed

text \<open>
  The claim as stated fails for a chunk that is larger than what is left of the upload:
  quota admission comes before the size check, so with nine of ten bytes in use a PATCH
  of five bytes to an upload of three is answered 507, and once the quota is freed the
  identical PATCH is answered 400.
\<close>

theorem C4_counterexample:
  "response_status (fst (tus_patch cfg_quota env0 server_full ''f1'' patch_big)) = Some 507
   \<and> get_upload server_open ''f1'' = get_upload server_full ''f1''
   \<and> fst (check_quota cfg_quota server_open (int (length (body patch_big))))
   \<and> response_status (fst (tus_patch cfg_quota env0 server_open ''f1'' patch_big)) = Some 400"
proof -
  have b: "int (length (body patch_big)) = 5" by (simp add: patch_big_def)
  have q1: "check_quota cfg_quota server_full (int (length (body patch_big)))
          = (False, get_storage_usage cfg_quota server_full)"
    using quota_full [of 5] by (simp add: b)
  have q2: "check_quota cfg_quota server_open (int (length (body patch_big)))
          = (True, get_storage_usage cfg_quota server_open)"
    using quota_full [of 5] by (simp add: b)
  have r1: "reaches_quota env0 server_full ''f1'' patch_big upload_open"
    and r2: "reaches_quota env0 server_open ''f1'' patch_big upload_open"
    using patch_big_reaches by simp_all
  have o: "offset upload_open = 0 \<and> upload_size upload_open = 3" by (simp add: upload_open_def)
  have t1: "tus_patch cfg_quota env0 server_full ''f1'' patch_big
      = (Inr (quota_response upload_open (get_storage_usage cfg_quota server_full)), server_full)"
    using r1 q1 by (rule patch_quota_refused)
  have t2: "tus_patch cfg_quota env0 server_open ''f1'' patch_big
      = (Inl (HTTPException 400 ''Chunk exceeds upload size''), server_open)"
    using patch_after_quota [OF r2, of cfg_quota] q2 o b by simp
  show ?thesis
    using t1 t2 q2 server_full_upload
    by (simp add: response_status_def quota_response_def)
qed

end
